theory Spec2Isabelle
  imports Main "HOL-Library.Word" "HOL-Library.Multiset"
begin

unbundle bit_operations_syntax

section \<open>Rockchip Video Decoder 2 (rkvdec2.c): data model\<close>

type_synonym u8 = "8 word"
type_synonym u32 = "32 word"
type_synonym u64 = "64 word"

text \<open>
  Return codes are the C \<open>int\<close> values of the driver: 0 for success, a negated errno
  otherwise.
\<close>

definition ENOMEM :: int where "ENOMEM = 12"
definition EBUSY :: int where "EBUSY = 16"
definition EINVAL :: int where "EINVAL = 22"

text \<open>
  \<open>enum rkvdec2_image_fmt\<close> is declared in rkvdec2.h; the enumerators are the ones
  rkvdec2.c names.
\<close>

datatype rkvdec2_image_fmt =
    RKVDEC2_IMG_FMT_ANY
  | RKVDEC2_IMG_FMT_420_8BIT
  | RKVDEC2_IMG_FMT_420_10BIT
  | RKVDEC2_IMG_FMT_422_8BIT
  | RKVDEC2_IMG_FMT_422_10BIT

record rkvdec2_decoded_fmt_desc =
  dfd_fourcc :: u32
  dfd_image_fmt :: rkvdec2_image_fmt

record v4l2_frmsize_stepwise =
  min_width :: u32
  max_width :: u32
  step_width :: u32
  min_height :: u32
  max_height :: u32
  step_height :: u32

text \<open>
  \<open>struct rkvdec2_coded_fmt_desc\<close>. The array \<open>decoded_fmts\<close> with its length
  \<open>num_decoded_fmts\<close> is a list. The operation set \<open>ops\<close> is passed to the functions
  that call a hook (see \<open>rkvdec2_coded_fmt_ops\<close> below), because its hooks take the
  session that points to the descriptor.
\<close>

record rkvdec2_coded_fmt_desc =
  cfd_fourcc :: u32
  cfd_frmsize :: v4l2_frmsize_stepwise
  cfd_decoded_fmts :: "rkvdec2_decoded_fmt_desc list"
  cfd_subsystem_flags :: u32

datatype v4l2_buf_type =
    V4L2_BUF_TYPE_UNSET
  | V4L2_BUF_TYPE_VIDEO_CAPTURE_MPLANE
  | V4L2_BUF_TYPE_VIDEO_OUTPUT_MPLANE

record v4l2_plane_pix_format =
  sizeimage :: u32
  bytesperline :: u32

text \<open>
  \<open>struct v4l2_pix_format_mplane\<close>; the fixed array \<open>plane_fmt[VIDEO_MAX_PLANES]\<close> is
  a function of the plane index.
\<close>

record v4l2_pix_format_mplane =
  pm_width :: u32
  pm_height :: u32
  pm_pixelformat :: u32
  pm_field :: u32
  pm_colorspace :: u32
  pm_plane_fmt :: "nat \<Rightarrow> v4l2_plane_pix_format"
  pm_num_planes :: u8
  pm_ycbcr_enc :: u8
  pm_quantization :: u8
  pm_xfer_func :: u8

record v4l2_format =
  fmt_type :: v4l2_buf_type
  fmt_pix_mp :: v4l2_pix_format_mplane

datatype rkvdec2_alloc_type = RKVDEC2_ALLOC_SRAM | RKVDEC2_ALLOC_DMA

text \<open>
  \<open>struct rkvdec2_rcb_buf\<close>: a pointer is its 64-bit address, \<open>NULL\<close> is 0.
\<close>

record rkvdec2_rcb_buf =
  rcb_cpu :: u64
  rcb_dma :: u64
  rcb_size :: u64
  rcb_type :: rkvdec2_alloc_type

text \<open>
  \<open>struct rkvdec2_ctx\<close>, the session. \<open>coded_fmt_desc\<close> is a pointer into the table of
  coded formats (\<open>None\<close> is \<open>NULL\<close>); \<open>rcb_bufs[RKVDEC2_RCB_COUNT]\<close> is a function of the
  record index.
\<close>

record rkvdec2_ctx =
  coded_fmt :: v4l2_format
  decoded_fmt :: v4l2_format
  coded_fmt_desc :: "rkvdec2_coded_fmt_desc option"
  image_fmt :: rkvdec2_image_fmt
  colmv_offset :: u32
  rcb_bufs :: "nat \<Rightarrow> rkvdec2_rcb_buf"

section \<open>Format registry\<close>

text \<open>
  The fourcc codes and the other V4L2 constants used below have the values of the
  kernel's videodev2.h and videobuf2-v4l2.h.
\<close>

definition V4L2_PIX_FMT_H264_SLICE :: u32 where "V4L2_PIX_FMT_H264_SLICE = 0x34363253"
definition V4L2_PIX_FMT_NV12 :: u32 where "V4L2_PIX_FMT_NV12 = 0x3231564E"
definition V4L2_PIX_FMT_NV15 :: u32 where "V4L2_PIX_FMT_NV15 = 0x3531564E"
definition V4L2_PIX_FMT_NV16 :: u32 where "V4L2_PIX_FMT_NV16 = 0x3631564E"
definition V4L2_PIX_FMT_NV20 :: u32 where "V4L2_PIX_FMT_NV20 = 0x3032564E"

definition VB2_V4L2_FL_SUPPORTS_M2M_HOLD_CAPTURE_BUF :: u32 where
  "VB2_V4L2_FL_SUPPORTS_M2M_HOLD_CAPTURE_BUF = 1"

definition rkvdec2_image_fmt_match :: "rkvdec2_image_fmt \<Rightarrow> rkvdec2_image_fmt \<Rightarrow> bool" where
  "rkvdec2_image_fmt_match fmt1 fmt2 \<longleftrightarrow>
     fmt1 = fmt2 \<or> fmt2 = RKVDEC2_IMG_FMT_ANY \<or> fmt1 = RKVDEC2_IMG_FMT_ANY"

text \<open>
  The loop of \<open>rkvdec2_enum_decoded_fmt\<close> over \<open>desc->decoded_fmts[i]\<close>, with the running
  \<open>fmt_idx\<close>; the list is the part of the table from \<open>i\<close> on.
\<close>

fun enum_decoded_loop ::
  "rkvdec2_decoded_fmt_desc list \<Rightarrow> int \<Rightarrow> rkvdec2_image_fmt \<Rightarrow> int \<Rightarrow> u32" where
  "enum_decoded_loop [] index flt fmt_idx = 0"
| "enum_decoded_loop (e # es) index flt fmt_idx =
     (if \<not> rkvdec2_image_fmt_match (dfd_image_fmt e) flt
      then enum_decoded_loop es index flt fmt_idx
      else if index = fmt_idx + 1 then dfd_fourcc e
      else enum_decoded_loop es index flt (fmt_idx + 1))"

definition rkvdec2_enum_decoded_fmt ::
  "rkvdec2_ctx \<Rightarrow> int \<Rightarrow> rkvdec2_image_fmt \<Rightarrow> u32" where
  "rkvdec2_enum_decoded_fmt ctx index flt =
     (case coded_fmt_desc ctx of
        None \<Rightarrow> 0
      | Some desc \<Rightarrow> enum_decoded_loop (cfd_decoded_fmts desc) index flt (- 1))"

definition rkvdec2_h264_decoded_fmts :: "rkvdec2_decoded_fmt_desc list" where
  "rkvdec2_h264_decoded_fmts =
     [\<lparr>dfd_fourcc = V4L2_PIX_FMT_NV12, dfd_image_fmt = RKVDEC2_IMG_FMT_420_8BIT\<rparr>,
      \<lparr>dfd_fourcc = V4L2_PIX_FMT_NV15, dfd_image_fmt = RKVDEC2_IMG_FMT_420_10BIT\<rparr>,
      \<lparr>dfd_fourcc = V4L2_PIX_FMT_NV16, dfd_image_fmt = RKVDEC2_IMG_FMT_422_8BIT\<rparr>,
      \<lparr>dfd_fourcc = V4L2_PIX_FMT_NV20, dfd_image_fmt = RKVDEC2_IMG_FMT_422_10BIT\<rparr>]"

definition rkvdec2_coded_fmts :: "rkvdec2_coded_fmt_desc list" where
  "rkvdec2_coded_fmts =
     [\<lparr>cfd_fourcc = V4L2_PIX_FMT_H264_SLICE,
       cfd_frmsize = \<lparr>min_width = 64, max_width = 65520, step_width = 64,
                      min_height = 16, max_height = 65520, step_height = 16\<rparr>,
       cfd_decoded_fmts = rkvdec2_h264_decoded_fmts,
       cfd_subsystem_flags = VB2_V4L2_FL_SUPPORTS_M2M_HOLD_CAPTURE_BUF\<rparr>]"

fun find_coded_loop :: "rkvdec2_coded_fmt_desc list \<Rightarrow> u32 \<Rightarrow> rkvdec2_coded_fmt_desc option" where
  "find_coded_loop [] fourcc = None"
| "find_coded_loop (d # ds) fourcc =
     (if cfd_fourcc d = fourcc then Some d else find_coded_loop ds fourcc)"

definition rkvdec2_find_coded_fmt_desc :: "u32 \<Rightarrow> rkvdec2_coded_fmt_desc option" where
  "rkvdec2_find_coded_fmt_desc fourcc = find_coded_loop rkvdec2_coded_fmts fourcc"

text \<open>
  The enumeration as the specification words it: the entries that match the filter, in
  table order, and the \<open>n\<close>-th of them, or 0 (not found) when there is none.
\<close>

definition matching_fmts ::
  "rkvdec2_decoded_fmt_desc list \<Rightarrow> rkvdec2_image_fmt \<Rightarrow> rkvdec2_decoded_fmt_desc list" where
  "matching_fmts tbl flt = filter (\<lambda>e. rkvdec2_image_fmt_match (dfd_image_fmt e) flt) tbl"

definition nth_matching_fourcc ::
  "rkvdec2_decoded_fmt_desc list \<Rightarrow> rkvdec2_image_fmt \<Rightarrow> int \<Rightarrow> u32" where
  "nth_matching_fourcc tbl flt n =
     (if 0 \<le> n \<and> nat n < length (matching_fmts tbl flt)
      then dfd_fourcc (matching_fmts tbl flt ! nat n) else 0)"

section \<open>Format state\<close>

definition V4L2_FIELD_NONE :: u32 where "V4L2_FIELD_NONE = 1"
definition V4L2_COLORSPACE_REC709 :: u32 where "V4L2_COLORSPACE_REC709 = 3"
definition V4L2_YCBCR_ENC_DEFAULT :: u8 where "V4L2_YCBCR_ENC_DEFAULT = 0"
definition V4L2_QUANTIZATION_DEFAULT :: u8 where "V4L2_QUANTIZATION_DEFAULT = 0"
definition V4L2_XFER_FUNC_DEFAULT :: u8 where "V4L2_XFER_FUNC_DEFAULT = 0"

text \<open>The values \<open>memset(p, 0, ...)\<close> and \<open>kzalloc\<close> leave behind.\<close>

definition zero_plane :: v4l2_plane_pix_format where
  "zero_plane = \<lparr>sizeimage = 0, bytesperline = 0\<rparr>"

definition zero_pix_mp :: v4l2_pix_format_mplane where
  "zero_pix_mp =
     \<lparr>pm_width = 0, pm_height = 0, pm_pixelformat = 0, pm_field = 0, pm_colorspace = 0,
      pm_plane_fmt = (\<lambda>i. zero_plane), pm_num_planes = 0, pm_ycbcr_enc = 0,
      pm_quantization = 0, pm_xfer_func = 0\<rparr>"

definition zero_format :: v4l2_format where
  "zero_format = \<lparr>fmt_type = V4L2_BUF_TYPE_UNSET, fmt_pix_mp = zero_pix_mp\<rparr>"

text \<open>
  A zeroed scratch-buffer record. Its \<open>type\<close> is whichever enumerator rkvdec2.h gives
  the value 0; no function of rkvdec2.c reads the type of a record whose \<open>cpu\<close> is
  \<open>NULL\<close>.
\<close>

definition zero_rcb_buf :: rkvdec2_rcb_buf where
  "zero_rcb_buf = \<lparr>rcb_cpu = 0, rcb_dma = 0, rcb_size = 0, rcb_type = RKVDEC2_ALLOC_SRAM\<rparr>"

definition zero_ctx :: rkvdec2_ctx where
  "zero_ctx =
     \<lparr>coded_fmt = zero_format, decoded_fmt = zero_format, coded_fmt_desc = None,
      image_fmt = RKVDEC2_IMG_FMT_ANY, colmv_offset = 0, rcb_bufs = (\<lambda>i. zero_rcb_buf)\<rparr>"

text \<open>
  \<open>v4l2_fill_pixfmt_mp\<close> belongs to the V4L2 core, outside rkvdec2.c. It is given by
  the parameter \<open>layout\<close>, the plane count and plane formats the core computes for a
  pixel format and a geometry, \<open>None\<close> for a pixel format the core does not know: the
  helper then returns an error and leaves the format as it was (rkvdec2.c ignores the
  return value). On success it stores the width, height and pixel format it was given
  and the computed planes.
\<close>

type_synonym plane_layout =
  "u32 \<Rightarrow> u32 \<Rightarrow> u32 \<Rightarrow> (u8 \<times> (nat \<Rightarrow> v4l2_plane_pix_format)) option"

definition v4l2_fill_pixfmt_mp ::
  "plane_layout \<Rightarrow> v4l2_pix_format_mplane \<Rightarrow> u32 \<Rightarrow> u32 \<Rightarrow> u32 \<Rightarrow> v4l2_pix_format_mplane" where
  "v4l2_fill_pixfmt_mp layout pix_mp pixelformat width height =
     (case layout pixelformat width height of
        None \<Rightarrow> pix_mp
      | Some (n, planes) \<Rightarrow>
          pix_mp\<lparr>pm_width := width, pm_height := height, pm_pixelformat := pixelformat,
                 pm_num_planes := n, pm_plane_fmt := planes\<rparr>)"

text \<open>\<open>DIV_ROUND_UP(n, d)\<close> on \<open>u32\<close>: \<open>((n) + (d) - 1) / (d)\<close>.\<close>

definition DIV_ROUND_UP :: "u32 \<Rightarrow> u32 \<Rightarrow> u32" where
  "DIV_ROUND_UP n d = (n + d - 1) div d"

text \<open>Returns \<open>colmv_offset\<close> and the format as the function leaves it.\<close>

definition rkvdec2_fill_decoded_pixfmt ::
  "plane_layout \<Rightarrow> v4l2_pix_format_mplane \<Rightarrow> u32 \<times> v4l2_pix_format_mplane" where
  "rkvdec2_fill_decoded_pixfmt layout pix_mp0 =
     (let pix_mp = v4l2_fill_pixfmt_mp layout pix_mp0 (pm_pixelformat pix_mp0)
                     (pm_width pix_mp0) (pm_height pix_mp0);
          colmv = sizeimage (pm_plane_fmt pix_mp 0);
          plane0 = (pm_plane_fmt pix_mp 0)
                     \<lparr>sizeimage := sizeimage (pm_plane_fmt pix_mp 0) +
                        128 * DIV_ROUND_UP (pm_width pix_mp) 16 *
                        DIV_ROUND_UP (pm_height pix_mp) 16\<rparr>
      in (colmv, pix_mp\<lparr>pm_plane_fmt := (pm_plane_fmt pix_mp)(0 := plane0)\<rparr>))"

definition rkvdec2_reset_fmt :: "u32 \<Rightarrow> v4l2_format" where
  "rkvdec2_reset_fmt fourcc =
     zero_format\<lparr>fmt_pix_mp := zero_pix_mp
       \<lparr>pm_pixelformat := fourcc, pm_field := V4L2_FIELD_NONE,
        pm_colorspace := V4L2_COLORSPACE_REC709, pm_ycbcr_enc := V4L2_YCBCR_ENC_DEFAULT,
        pm_quantization := V4L2_QUANTIZATION_DEFAULT, pm_xfer_func := V4L2_XFER_FUNC_DEFAULT\<rparr>\<rparr>"

definition rkvdec2_reset_decoded_fmt :: "plane_layout \<Rightarrow> rkvdec2_ctx \<Rightarrow> rkvdec2_ctx" where
  "rkvdec2_reset_decoded_fmt layout ctx =
     (let fourcc = rkvdec2_enum_decoded_fmt ctx 0 (image_fmt ctx);
          f = rkvdec2_reset_fmt fourcc;
          f = f\<lparr>fmt_type := V4L2_BUF_TYPE_VIDEO_CAPTURE_MPLANE\<rparr>;
          f = f\<lparr>fmt_pix_mp := (fmt_pix_mp f)\<lparr>pm_width := pm_width (fmt_pix_mp (coded_fmt ctx))\<rparr>\<rparr>;
          f = f\<lparr>fmt_pix_mp := (fmt_pix_mp f)\<lparr>pm_height := pm_height (fmt_pix_mp (coded_fmt ctx))\<rparr>\<rparr>;
          (colmv, pix_mp) = rkvdec2_fill_decoded_pixfmt layout (fmt_pix_mp f)
      in ctx\<lparr>decoded_fmt := f\<lparr>fmt_pix_mp := pix_mp\<rparr>, colmv_offset := colmv\<rparr>)"

text \<open>
  The size of plane 0 that the V4L2 core computes for the reset decoded format, before
  the driver adds its own area: 0 when the core does not know the pixel format, since
  \<open>rkvdec2_reset_fmt\<close> has cleared the format.
\<close>

definition base_sizeimage :: "plane_layout \<Rightarrow> u32 \<Rightarrow> u32 \<Rightarrow> u32 \<Rightarrow> u32" where
  "base_sizeimage layout fourcc width height =
     (case layout fourcc width height of
        None \<Rightarrow> 0
      | Some (n, planes) \<Rightarrow> sizeimage (planes 0))"

section \<open>Frame-size enumeration\<close>

definition V4L2_FRMSIZE_TYPE_CONTINUOUS :: u32 where "V4L2_FRMSIZE_TYPE_CONTINUOUS = 2"

record v4l2_frmsizeenum =
  fse_index :: u32
  fse_pixel_format :: u32
  fse_type :: u32
  fse_stepwise :: v4l2_frmsize_stepwise

definition rkvdec2_enum_framesizes :: "v4l2_frmsizeenum \<Rightarrow> int \<times> v4l2_frmsizeenum" where
  "rkvdec2_enum_framesizes fsize =
     (if fse_index fsize \<noteq> 0 then (- EINVAL, fsize)
      else case rkvdec2_find_coded_fmt_desc (fse_pixel_format fsize) of
        None \<Rightarrow> (- EINVAL, fsize)
      | Some desc \<Rightarrow>
          (0, fsize\<lparr>fse_type := V4L2_FRMSIZE_TYPE_CONTINUOUS,
                    fse_stepwise := (fse_stepwise fsize)
                      \<lparr>min_height := 1, min_width := 1, step_height := 1, step_width := 1,
                       max_height := max_height (cfd_frmsize desc),
                       max_width := max_width (cfd_frmsize desc)\<rparr>\<rparr>))"

section \<open>Scratch buffers (RCB)\<close>

datatype rcb_axis = PIC_WIDTH | PIC_HEIGHT

record rcb_size_info =
  multiplier :: u8
  axis :: rcb_axis

definition rcb_sizes :: "rcb_size_info list" where
  "rcb_sizes =
     [\<lparr>multiplier = 6, axis = PIC_WIDTH\<rparr>,
      \<lparr>multiplier = 1, axis = PIC_WIDTH\<rparr>,
      \<lparr>multiplier = 1, axis = PIC_HEIGHT\<rparr>,
      \<lparr>multiplier = 3, axis = PIC_WIDTH\<rparr>,
      \<lparr>multiplier = 6, axis = PIC_WIDTH\<rparr>,
      \<lparr>multiplier = 3, axis = PIC_HEIGHT\<rparr>,
      \<lparr>multiplier = 22, axis = PIC_WIDTH\<rparr>,
      \<lparr>multiplier = 6, axis = PIC_WIDTH\<rparr>,
      \<lparr>multiplier = 11, axis = PIC_WIDTH\<rparr>,
      \<lparr>multiplier = 67, axis = PIC_HEIGHT\<rparr>]"

text \<open>
  Modelled from the spec: \<open>RKVDEC2_RCB_COUNT\<close> is defined in rkvdec2.h, which is not among
  the sources; the specification fixes 10 scratch-buffer kinds, the length of
  \<open>rcb_sizes\<close>.
\<close>

definition RKVDEC2_RCB_COUNT :: nat where
  "RKVDEC2_RCB_COUNT = 10"

text \<open>
  \<open>RCB_SIZE(n, w, h)\<close>: the \<open>u8\<close> multiplier is promoted and multiplied with a \<open>u32\<close>
  dimension, so the product is an \<open>unsigned int\<close>. The macro is only used with
  \<open>n < RKVDEC2_RCB_COUNT\<close>.
\<close>

definition RCB_SIZE :: "nat \<Rightarrow> u32 \<Rightarrow> u32 \<Rightarrow> u32" where
  "RCB_SIZE n w h =
     ucast (multiplier (rcb_sizes ! n)) *
       (case axis (rcb_sizes ! n) of PIC_HEIGHT \<Rightarrow> h | PIC_WIDTH \<Rightarrow> w)"

text \<open>\<open>ALIGN(x, a)\<close> on \<open>size_t\<close> (64 bits on the arm64 targets of the driver).\<close>

definition ALIGN :: "u64 \<Rightarrow> u64 \<Rightarrow> u64" where
  "ALIGN x a = (x + (a - 1)) AND NOT (a - 1)"

text \<open>
  \<open>struct rkvdec2_dev\<close>, as far as the allocator reads it: whether the pointers
  \<open>sram_pool\<close> and \<open>iommu_domain\<close> are set.
\<close>

record rkvdec2_dev =
  sram_pool :: bool
  iommu_domain :: bool

text \<open>
  The memory services the allocator calls (genalloc, IOMMU, DMA API) are outside
  rkvdec2.c. Their answers are given by an environment: for the iteration \<open>i\<close> of the
  allocation loop, the pointer and bus address an allocator returns (\<open>NULL\<close> is 0) and
  the return code of \<open>iommu_map\<close>. Each function of the driver returns the list of the
  calls it made, in order.
\<close>

record mem_env =
  gen_pool_dma_zalloc_align :: "nat \<Rightarrow> u64 \<Rightarrow> u64 \<Rightarrow> u64 \<times> u64"
  iommu_map :: "nat \<Rightarrow> u64 \<Rightarrow> u64 \<Rightarrow> u64 \<Rightarrow> int"
  dma_alloc_coherent :: "nat \<Rightarrow> u64 \<Rightarrow> u64 \<times> u64"

datatype mem_event =
    GenPoolDmaZallocAlign u64 u64 u64 u64
  | IommuMap u64 u64 u64 int
  | GenPoolFree u64 u64
  | IommuUnmap bool u64 u64
  | DmaAllocCoherent u64 u64 u64
  | DmaFreeCoherent u64 u64 u64

text \<open>
  The arguments are: \<open>GenPoolDmaZallocAlign size align cpu dma\<close> (the last two returned),
  \<open>IommuMap iova paddr size ret\<close>, \<open>GenPoolFree addr size\<close>,
  \<open>IommuUnmap domain_set iova size\<close>, \<open>DmaAllocCoherent size cpu dma\<close> (the last two
  returned) and \<open>DmaFreeCoherent size cpu dma\<close>.
\<close>

text \<open>One iteration of the loop in \<open>rkvdec2_free_rcb\<close>.\<close>

definition rcb_free_one :: "rkvdec2_dev \<Rightarrow> rkvdec2_rcb_buf \<Rightarrow> mem_event list" where
  "rcb_free_one dev b =
     (if rcb_cpu b = 0 then []
      else case rcb_type b of
        RKVDEC2_ALLOC_SRAM \<Rightarrow>
          [IommuUnmap (iommu_domain dev) (rcb_cpu b) (rcb_size b),
           GenPoolFree (rcb_cpu b) (rcb_size b)]
      | RKVDEC2_ALLOC_DMA \<Rightarrow>
          [DmaFreeCoherent (rcb_size b) (rcb_cpu b) (rcb_dma b)])"

function free_rcb_loop :: "rkvdec2_dev \<Rightarrow> (nat \<Rightarrow> rkvdec2_rcb_buf) \<Rightarrow> nat \<Rightarrow> mem_event list" where
  "free_rcb_loop dev bufs i =
     (if i < RKVDEC2_RCB_COUNT
      then rcb_free_one dev (bufs i) @ free_rcb_loop dev bufs (Suc i)
      else [])"
  by pat_completeness auto
termination
  by (relation "measure (\<lambda>(dev, bufs, i). RKVDEC2_RCB_COUNT - i)") auto

declare free_rcb_loop.simps [simp del]

text \<open>
  \<open>rkvdec2_free_rcb\<close> returns the session as it leaves it and the calls it made. It
  writes no field of the session.
\<close>

definition rkvdec2_free_rcb :: "rkvdec2_dev \<Rightarrow> rkvdec2_ctx \<Rightarrow> rkvdec2_ctx \<times> mem_event list" where
  "rkvdec2_free_rcb dev ctx = (ctx, free_rcb_loop dev (rcb_bufs ctx) 0)"

text \<open>
  One iteration of the loop in \<open>rkvdec2_allocate_rcb\<close>: the record to store, or \<open>None\<close>
  where the code jumps to \<open>err_alloc\<close>, and the calls made. The local \<open>dma\<close> is not
  initialised in C; it is read only after an allocator has set it.
\<close>

definition rcb_alloc_one ::
  "rkvdec2_dev \<Rightarrow> mem_env \<Rightarrow> u32 \<Rightarrow> u32 \<Rightarrow> nat \<Rightarrow> rkvdec2_rcb_buf option \<times> mem_event list" where
  "rcb_alloc_one dev env width height i =
     (let rcb_size0 = (ucast (RCB_SIZE i width height) :: u64);
          (cpu1, dma1, rcb_size1, ev1) =
            (if sram_pool dev
             then let sz = (if iommu_domain dev then ALIGN rcb_size0 0x1000 else rcb_size0);
                      (c, d) = gen_pool_dma_zalloc_align env i sz 0x1000
                  in (c, d, sz, [GenPoolDmaZallocAlign sz 0x1000 c d])
             else (0, 0, rcb_size0, []));
          (cpu2, dma2, ev2) =
            (if cpu1 \<noteq> 0 \<and> iommu_domain dev
             then let ret = iommu_map env i cpu1 dma1 rcb_size1
                  in if ret \<noteq> 0
                     then (0, dma1, [IommuMap cpu1 dma1 rcb_size1 ret, GenPoolFree cpu1 rcb_size1])
                     else (cpu1, cpu1, [IommuMap cpu1 dma1 rcb_size1 ret])
             else (cpu1, dma1, []));
          (cpu3, dma3, rcb_size3, alloc_type, ev3) =
            (if cpu2 = 0
             then let sz = (ucast (RCB_SIZE i width height) :: u64);
                      (c, d) = dma_alloc_coherent env i sz
                  in (c, d, sz, RKVDEC2_ALLOC_DMA, [DmaAllocCoherent sz c d])
             else (cpu2, dma2, rcb_size1, RKVDEC2_ALLOC_SRAM, []))
      in (if cpu3 = 0 then None
          else Some \<lparr>rcb_cpu = cpu3, rcb_dma = dma3, rcb_size = rcb_size3, rcb_type = alloc_type\<rparr>,
          ev1 @ ev2 @ ev3))"

text \<open>
  The loop of \<open>rkvdec2_allocate_rcb\<close> from iteration \<open>i\<close> on: the return code at the end
  of the loop (0) or at the jump to \<open>err_alloc\<close> (\<open>-ENOMEM\<close>), the records and the calls.
\<close>

function allocate_rcb_loop ::
  "rkvdec2_dev \<Rightarrow> mem_env \<Rightarrow> u32 \<Rightarrow> u32 \<Rightarrow> nat \<Rightarrow> (nat \<Rightarrow> rkvdec2_rcb_buf)
     \<Rightarrow> int \<times> (nat \<Rightarrow> rkvdec2_rcb_buf) \<times> mem_event list" where
  "allocate_rcb_loop dev env width height i bufs =
     (if i < RKVDEC2_RCB_COUNT
      then (case rcb_alloc_one dev env width height i of
              (None, evs) \<Rightarrow> (- ENOMEM, bufs, evs)
            | (Some b, evs) \<Rightarrow>
                (case allocate_rcb_loop dev env width height (Suc i) (bufs(i := b)) of
                   (ret, bufs', evs') \<Rightarrow> (ret, bufs', evs @ evs')))
      else (0, bufs, []))"
  by pat_completeness auto
termination
  by (relation "measure (\<lambda>(dev, env, width, height, i, bufs). RKVDEC2_RCB_COUNT - i)") auto

declare allocate_rcb_loop.simps [simp del]

text \<open>
  \<open>memset(ctx->rcb_bufs, 0, sizeof(*ctx->rcb_bufs))\<close> clears \<open>sizeof\<close> one record, that is
  the record 0 only.
\<close>

definition rkvdec2_allocate_rcb ::
  "rkvdec2_dev \<Rightarrow> mem_env \<Rightarrow> rkvdec2_ctx \<Rightarrow> int \<times> rkvdec2_ctx \<times> mem_event list" where
  "rkvdec2_allocate_rcb dev env ctx =
     (let bufs0 = (rcb_bufs ctx)(0 := zero_rcb_buf);
          width = pm_width (fmt_pix_mp (decoded_fmt ctx));
          height = pm_height (fmt_pix_mp (decoded_fmt ctx))
      in case allocate_rcb_loop dev env width height 0 bufs0 of
           (ret, bufs, evs) \<Rightarrow>
             if ret = 0 then (0, ctx\<lparr>rcb_bufs := bufs\<rparr>, evs)
             else (case rkvdec2_free_rcb dev (ctx\<lparr>rcb_bufs := bufs\<rparr>) of
                     (ctx', evs') \<Rightarrow> (ret, ctx', evs @ evs')))"

text \<open>
  What the session holds after a list of calls: a pool block, an IOMMU mapping or a
  coherent DMA buffer, each named by its address. An allocation that returned a buffer
  and a mapping that succeeded add one; a release removes one copy, if there is one.
\<close>

datatype resource = PoolBlock u64 | IommuMapping u64 | DmaBuffer u64

fun apply_event :: "resource multiset \<Rightarrow> mem_event \<Rightarrow> resource multiset" where
  "apply_event M (GenPoolDmaZallocAlign sz al c d) =
     (if c = 0 then M else add_mset (PoolBlock c) M)"
| "apply_event M (IommuMap iova paddr sz ret) =
     (if ret = 0 then add_mset (IommuMapping iova) M else M)"
| "apply_event M (GenPoolFree a sz) = M - {#PoolBlock a#}"
| "apply_event M (IommuUnmap domain_set iova sz) = M - {#IommuMapping iova#}"
| "apply_event M (DmaAllocCoherent sz c d) =
     (if c = 0 then M else add_mset (DmaBuffer c) M)"
| "apply_event M (DmaFreeCoherent sz c d) = M - {#DmaBuffer c#}"

definition held_after :: "resource multiset \<Rightarrow> mem_event list \<Rightarrow> resource multiset" where
  "held_after M evs = foldl apply_event M evs"

text \<open>The resources a stored record stands for.\<close>

definition rcb_resources :: "rkvdec2_dev \<Rightarrow> rkvdec2_rcb_buf \<Rightarrow> resource multiset" where
  "rcb_resources dev b =
     (case rcb_type b of
        RKVDEC2_ALLOC_SRAM \<Rightarrow>
          (if iommu_domain dev then {#PoolBlock (rcb_cpu b), IommuMapping (rcb_cpu b)#}
           else {#PoolBlock (rcb_cpu b)#})
      | RKVDEC2_ALLOC_DMA \<Rightarrow> {#DmaBuffer (rcb_cpu b)#})"

text \<open>
  Modelled from the spec: the code of the two allocators is outside rkvdec2.c. The
  specification has both allocations zero-initialised: \<open>gen_pool_dma_zalloc_align\<close> is
  the clearing variant of the pool allocator, and \<open>dma_alloc_coherent\<close> hands out cleared
  memory. \<open>zero_initialised\<close> holds of the calls that return cleared memory.
\<close>

fun is_allocation :: "mem_event \<Rightarrow> bool" where
  "is_allocation (GenPoolDmaZallocAlign sz al c d) = True"
| "is_allocation (DmaAllocCoherent sz c d) = True"
| "is_allocation e = False"

fun zero_initialised :: "mem_event \<Rightarrow> bool" where
  "zero_initialised (GenPoolDmaZallocAlign sz al c d) = True"
| "zero_initialised (DmaAllocCoherent sz c d) = True"
| "zero_initialised e = False"

text \<open>
  The sizes passed to \<open>gen_pool_dma_zalloc_align\<close>, and those passed to
  \<open>dma_alloc_coherent\<close>, in the order of the calls.
\<close>

fun pool_requests :: "mem_event list \<Rightarrow> u64 list" where
  "pool_requests [] = []"
| "pool_requests (GenPoolDmaZallocAlign sz al c d # es) = sz # pool_requests es"
| "pool_requests (e # es) = pool_requests es"

fun dma_requests :: "mem_event list \<Rightarrow> u64 list" where
  "dma_requests [] = []"
| "dma_requests (DmaAllocCoherent sz c d # es) = sz # dma_requests es"
| "dma_requests (e # es) = dma_requests es"

section \<open>Decode-queue start\<close>

text \<open>
  The hooks of \<open>struct rkvdec2_coded_fmt_ops\<close> that the functions below call; \<open>None\<close> is a
  hook that is not set. The operation set of the H.264 descriptor is defined outside
  rkvdec2.c, so it is a parameter.
\<close>

record rkvdec2_coded_fmt_ops =
  ops_adjust_fmt :: "(rkvdec2_ctx \<Rightarrow> v4l2_format \<Rightarrow> int \<times> v4l2_format) option"
  ops_start :: "(rkvdec2_ctx \<Rightarrow> int \<times> rkvdec2_ctx) option"

definition V4L2_TYPE_IS_OUTPUT :: "v4l2_buf_type \<Rightarrow> bool" where
  "V4L2_TYPE_IS_OUTPUT t \<longleftrightarrow> t = V4L2_BUF_TYPE_VIDEO_OUTPUT_MPLANE"

definition V4L2_TYPE_IS_CAPTURE :: "v4l2_buf_type \<Rightarrow> bool" where
  "V4L2_TYPE_IS_CAPTURE t \<longleftrightarrow> \<not> V4L2_TYPE_IS_OUTPUT t"

definition rkvdec2_start_streaming ::
  "rkvdec2_coded_fmt_ops \<Rightarrow> rkvdec2_dev \<Rightarrow> mem_env \<Rightarrow> v4l2_buf_type \<Rightarrow> rkvdec2_ctx
     \<Rightarrow> int \<times> rkvdec2_ctx \<times> mem_event list" where
  "rkvdec2_start_streaming ops dev env q_type ctx =
     (if V4L2_TYPE_IS_CAPTURE q_type then (0, ctx, [])
      else case coded_fmt_desc ctx of
        None \<Rightarrow> (- EINVAL, ctx, [])
      | Some desc \<Rightarrow>
          (case rkvdec2_allocate_rcb dev env ctx of
             (ret, ctx1, evs1) \<Rightarrow>
               if ret \<noteq> 0 then (ret, ctx1, evs1)
               else (case ops_start ops of
                       None \<Rightarrow> (0, ctx1, evs1)
                     | Some start \<Rightarrow>
                         (case start ctx1 of
                            (ret', ctx2) \<Rightarrow>
                              if ret' \<noteq> 0
                              then (case rkvdec2_free_rcb dev ctx2 of
                                      (ctx3, evs3) \<Rightarrow> (ret', ctx3, evs1 @ evs3))
                              else (0, ctx2, evs1)))))"

section \<open>Setting the output (coded) format\<close>

text \<open>
  \<open>struct vb2_queue\<close>, as far as the driver reads and writes it: whether the queue is
  streaming (\<open>vb2_is_streaming\<close>), whether it has buffers allocated (\<open>vb2_is_busy\<close>), and
  its \<open>subsystem_flags\<close>.
\<close>

record vb2_queue =
  vq_streaming :: bool
  vq_busy :: bool
  vq_subsystem_flags :: u32

definition vb2_is_streaming :: "vb2_queue \<Rightarrow> bool" where
  "vb2_is_streaming q = vq_streaming q"

definition vb2_is_busy :: "vb2_queue \<Rightarrow> bool" where
  "vb2_is_busy q = vq_busy q"

text \<open>
  \<open>v4l2_apply_frmsize_constraints\<close> belongs to the V4L2 core; it is the parameter
  \<open>constrain\<close>, which gives the width and height it stores for a requested width and
  height and a frame-size envelope.
\<close>

type_synonym frmsize_constraints = "u32 \<Rightarrow> u32 \<Rightarrow> v4l2_frmsize_stepwise \<Rightarrow> u32 \<times> u32"

definition rkvdec2_try_output_fmt ::
  "rkvdec2_coded_fmt_ops \<Rightarrow> frmsize_constraints \<Rightarrow> rkvdec2_ctx \<Rightarrow> v4l2_format
     \<Rightarrow> int \<times> v4l2_format" where
  "rkvdec2_try_output_fmt ops constrain ctx f =
     (let pix_mp = fmt_pix_mp f;
          (pix_mp, desc) =
            (case rkvdec2_find_coded_fmt_desc (pm_pixelformat pix_mp) of
               None \<Rightarrow> (pix_mp\<lparr>pm_pixelformat := cfd_fourcc (rkvdec2_coded_fmts ! 0)\<rparr>,
                         rkvdec2_coded_fmts ! 0)
             | Some d \<Rightarrow> (pix_mp, d));
          (w, h) = constrain (pm_width pix_mp) (pm_height pix_mp) (cfd_frmsize desc);
          pix_mp = pix_mp\<lparr>pm_width := w, pm_height := h, pm_field := V4L2_FIELD_NONE,
                          pm_num_planes := 1\<rparr>;
          f = f\<lparr>fmt_pix_mp := pix_mp\<rparr>
      in case ops_adjust_fmt ops of
           None \<Rightarrow> (0, f)
         | Some adjust_fmt \<Rightarrow>
             (case adjust_fmt ctx f of
                (ret, f') \<Rightarrow> if ret \<noteq> 0 then (ret, f') else (0, f')))"

text \<open>
  \<open>rkvdec2_s_output_fmt\<close> returns the return code, the session, the output queue and the
  caller's format as the function leaves them. \<open>vq\<close> is the output queue, \<open>peer_vq\<close> the
  capture queue.
\<close>

definition rkvdec2_s_output_fmt ::
  "rkvdec2_coded_fmt_ops \<Rightarrow> frmsize_constraints \<Rightarrow> plane_layout \<Rightarrow> rkvdec2_ctx
     \<Rightarrow> vb2_queue \<Rightarrow> vb2_queue \<Rightarrow> v4l2_format
     \<Rightarrow> int \<times> rkvdec2_ctx \<times> vb2_queue \<times> v4l2_format" where
  "rkvdec2_s_output_fmt ops constrain layout ctx vq peer_vq f =
     (if vb2_is_streaming vq \<or>
         (vb2_is_busy vq \<and>
          pm_pixelformat (fmt_pix_mp f) \<noteq> pm_pixelformat (fmt_pix_mp (coded_fmt ctx)))
      then (- EBUSY, ctx, vq, f)
      else if vb2_is_busy peer_vq then (- EBUSY, ctx, vq, f)
      else case rkvdec2_try_output_fmt ops constrain ctx f of
        (ret, f1) \<Rightarrow>
          if ret \<noteq> 0 then (ret, ctx, vq, f1)
          else case rkvdec2_find_coded_fmt_desc (pm_pixelformat (fmt_pix_mp f1)) of
            None \<Rightarrow> (- EINVAL, ctx, vq, f1)
          | Some desc \<Rightarrow>
              (let ctx1 = ctx\<lparr>coded_fmt_desc := Some desc, coded_fmt := f1\<rparr>;
                   ctx2 = rkvdec2_reset_decoded_fmt layout ctx1;
                   cap_pix = (fmt_pix_mp (decoded_fmt ctx2))
                     \<lparr>pm_colorspace := pm_colorspace (fmt_pix_mp f1),
                      pm_xfer_func := pm_xfer_func (fmt_pix_mp f1),
                      pm_ycbcr_enc := pm_ycbcr_enc (fmt_pix_mp f1),
                      pm_quantization := pm_quantization (fmt_pix_mp f1)\<rparr>;
                   ctx3 = ctx2\<lparr>decoded_fmt := (decoded_fmt ctx2)\<lparr>fmt_pix_mp := cap_pix\<rparr>\<rparr>;
                   vq' = vq\<lparr>vq_subsystem_flags :=
                               vq_subsystem_flags vq OR cfd_subsystem_flags desc\<rparr>
               in (0, ctx3, vq', f1)))"

section \<open>Sample values\<close>

definition nv12_layout :: plane_layout where
  "nv12_layout pixelformat width height =
     (if pixelformat = V4L2_PIX_FMT_NV12
      then Some (1, (\<lambda>i. zero_plane)
             (0 := \<lparr>sizeimage = width * height + (width * height) div 2, bytesperline = width\<rparr>))
      else None)"

definition h264_desc :: rkvdec2_coded_fmt_desc where
  "h264_desc = hd rkvdec2_coded_fmts"

definition session_1080p :: rkvdec2_ctx where
  "session_1080p =
     zero_ctx\<lparr>coded_fmt := (rkvdec2_reset_fmt V4L2_PIX_FMT_H264_SLICE)
                 \<lparr>fmt_type := V4L2_BUF_TYPE_VIDEO_OUTPUT_MPLANE,
                  fmt_pix_mp := (fmt_pix_mp (rkvdec2_reset_fmt V4L2_PIX_FMT_H264_SLICE))
                    \<lparr>pm_width := 1920, pm_height := 1088\<rparr>\<rparr>,
               coded_fmt_desc := Some h264_desc\<rparr>"

definition zero_stepwise :: v4l2_frmsize_stepwise where
  "zero_stepwise = \<lparr>min_width = 0, max_width = 0, step_width = 0,
                     min_height = 0, max_height = 0, step_height = 0\<rparr>"


definition sram_iommu_dev :: rkvdec2_dev where
  "sram_iommu_dev = \<lparr>sram_pool = True, iommu_domain = True\<rparr>"

definition pool_of_three :: mem_env where
  "pool_of_three =
     \<lparr>gen_pool_dma_zalloc_align =
        (\<lambda>i sz al. if i = 0 then (0xff001000, 0x1000)
                    else if i = 1 then (0xff004000, 0x4000)
                    else if i = 2 then (0xff005000, 0x5000)
                    else (0, 0)),
      iommu_map = (\<lambda>i iova paddr sz. 0),
      dma_alloc_coherent = (\<lambda>i sz. (0, 0))\<rparr>"

definition session_1080p_decoded :: rkvdec2_ctx where
  "session_1080p_decoded = rkvdec2_reset_decoded_fmt nv12_layout session_1080p"

definition ram_only_dev :: rkvdec2_dev where
  "ram_only_dev = \<lparr>sram_pool = False, iommu_domain = False\<rparr>"

definition one_buffer_session :: rkvdec2_ctx where
  "one_buffer_session =
     zero_ctx\<lparr>rcb_bufs := (\<lambda>i. zero_rcb_buf)
       (0 := \<lparr>rcb_cpu = 0xffff000012340000, rcb_dma = 0x12340000, rcb_size = 11520,
              rcb_type = RKVDEC2_ALLOC_DMA\<rparr>)\<rparr>"

definition pool_map_fails :: mem_env where
  "pool_map_fails =
     \<lparr>gen_pool_dma_zalloc_align = (\<lambda>i sz al. (0xff001000, 0x1000)),
      iommu_map = (\<lambda>i iova paddr sz. - 12),
      dma_alloc_coherent = (\<lambda>i sz. (0xffff000012340000, 0x12340000))\<rparr>"

definition ram_plenty :: mem_env where
  "ram_plenty =
     \<lparr>gen_pool_dma_zalloc_align = (\<lambda>i sz al. (0, 0)),
      iommu_map = (\<lambda>i iova paddr sz. 0),
      dma_alloc_coherent =
        (\<lambda>i sz. (0xffff000012340000 + 0x20000 * of_nat i, 0x12340000 + 0x20000 * of_nat i))\<rparr>"

definition failing_start_ops :: rkvdec2_coded_fmt_ops where
  "failing_start_ops = \<lparr>ops_adjust_fmt = None, ops_start = Some (\<lambda>ctx. (- 5, ctx))\<rparr>"

definition busy_queue :: vb2_queue where
  "busy_queue = \<lparr>vq_streaming = False, vq_busy = True, vq_subsystem_flags = 0\<rparr>"

definition idle_queue :: vb2_queue where
  "idle_queue = \<lparr>vq_streaming = False, vq_busy = False, vq_subsystem_flags = 0\<rparr>"

definition no_constraints :: frmsize_constraints where
  "no_constraints w h frmsize = (w, h)"

definition session_48000 :: rkvdec2_ctx where
  "session_48000 =
     zero_ctx\<lparr>coded_fmt := (rkvdec2_reset_fmt V4L2_PIX_FMT_H264_SLICE)
                 \<lparr>fmt_type := V4L2_BUF_TYPE_VIDEO_OUTPUT_MPLANE,
                  fmt_pix_mp := (fmt_pix_mp (rkvdec2_reset_fmt V4L2_PIX_FMT_H264_SLICE))
                    \<lparr>pm_width := 48000, pm_height := 48000\<rparr>\<rparr>,
               coded_fmt_desc := Some h264_desc\<rparr>"

section \<open>Properties of the format registry\<close>

lemma enum_decoded_loop_nth:
  "enum_decoded_loop es index flt k = nth_matching_fourcc es flt (index - k - 1)"
proof (induction es arbitrary: k)
  case Nil
  show ?case by (simp add: nth_matching_fourcc_def matching_fmts_def)
next
  case (Cons e es)
  show ?case
  proof (cases "rkvdec2_image_fmt_match (dfd_image_fmt e) flt")
    case False
    then show ?thesis
      using Cons.IH [of k] by (simp add: nth_matching_fourcc_def matching_fmts_def)
  next
    case True
    show ?thesis
    proof (cases "index = k + 1")
      case eq: True
      then show ?thesis using True by (simp add: nth_matching_fourcc_def matching_fmts_def)
    next
      case neq: False
      have "enum_decoded_loop (e # es) index flt k = nth_matching_fourcc es flt (index - (k + 1) - 1)"
        using True neq Cons.IH [of "k + 1"] by simp
      also have "\<dots> = nth_matching_fourcc (e # es) flt (index - k - 1)"
      proof (cases "index - k - 1 \<le> 0")
        case True
        then have "index - (k + 1) - 1 < 0" by simp
        then show ?thesis using True neq
          by (simp add: nth_matching_fourcc_def matching_fmts_def)
      next
        case False
        then obtain m where m: "nat (index - k - 1) = Suc m" "nat (index - (k + 1) - 1) = m"
          by (metis Suc_nat_eq_nat_zadd1 add.commute diff_add_cancel diff_diff_eq not_le
              zle_diff1_eq zless_imp_add1_zle)
        from False have "0 \<le> index - (k + 1) - 1" by simp
        with False m \<open>rkvdec2_image_fmt_match (dfd_image_fmt e) flt\<close> show ?thesis
          by (simp add: nth_matching_fourcc_def matching_fmts_def)
      qed
      finally show ?thesis .
    qed
  qed
qed

text \<open>
  C6. For a session with a coded descriptor, any index and any image-kind filter,
  \<open>rkvdec2_enum_decoded_fmt\<close> walks the descriptor's decoded-format table in order,
  skips the entries that do not match the filter, and returns the fourcc of the entry
  number \<open>index\<close> among the matching ones, or 0 (not found) when fewer than \<open>index + 1\<close>
  entries match (or the index is negative). Matching is symmetric, and holds exactly when
  the filter is the wildcard, the entry's kind is the wildcard, or the kinds are equal.
\<close>

theorem enum_decoded_fmt_nth_match:
  assumes "coded_fmt_desc ctx = Some desc"
  shows "rkvdec2_enum_decoded_fmt ctx index flt
           = nth_matching_fourcc (cfd_decoded_fmts desc) flt index
         \<and> (rkvdec2_image_fmt_match k flt \<longleftrightarrow> rkvdec2_image_fmt_match flt k)
         \<and> (rkvdec2_image_fmt_match k flt
              \<longleftrightarrow> flt = RKVDEC2_IMG_FMT_ANY \<or> k = RKVDEC2_IMG_FMT_ANY \<or> k = flt)"
  using assms enum_decoded_loop_nth [of "cfd_decoded_fmts desc" index flt "- 1"]
  by (auto simp: rkvdec2_enum_decoded_fmt_def rkvdec2_image_fmt_match_def)



theorem enum_decoded_fmt_nth_match_witness:
  "coded_fmt_desc session_1080p = Some h264_desc
   \<and> rkvdec2_enum_decoded_fmt session_1080p 1 RKVDEC2_IMG_FMT_ANY = V4L2_PIX_FMT_NV15
   \<and> rkvdec2_enum_decoded_fmt session_1080p 1 RKVDEC2_IMG_FMT_422_8BIT = 0
   \<and> rkvdec2_image_fmt_match RKVDEC2_IMG_FMT_ANY RKVDEC2_IMG_FMT_422_8BIT
   \<and> rkvdec2_image_fmt_match RKVDEC2_IMG_FMT_422_8BIT RKVDEC2_IMG_FMT_ANY"
proof -
  have d: "coded_fmt_desc session_1080p = Some h264_desc"
    by (simp add: session_1080p_def zero_ctx_def)
  have m: "matching_fmts (cfd_decoded_fmts h264_desc) RKVDEC2_IMG_FMT_ANY = rkvdec2_h264_decoded_fmts"
    "matching_fmts (cfd_decoded_fmts h264_desc) RKVDEC2_IMG_FMT_422_8BIT
       = [\<lparr>dfd_fourcc = V4L2_PIX_FMT_NV16, dfd_image_fmt = RKVDEC2_IMG_FMT_422_8BIT\<rparr>]"
    by (simp_all add: matching_fmts_def h264_desc_def rkvdec2_coded_fmts_def
        rkvdec2_h264_decoded_fmts_def rkvdec2_image_fmt_match_def)
  show ?thesis
    using d enum_decoded_fmt_nth_match [OF d, of 1 RKVDEC2_IMG_FMT_ANY RKVDEC2_IMG_FMT_422_8BIT]
      enum_decoded_fmt_nth_match [OF d, of 1 RKVDEC2_IMG_FMT_422_8BIT RKVDEC2_IMG_FMT_ANY]
    by (simp add: nth_matching_fourcc_def m rkvdec2_h264_decoded_fmts_def)
qed

section \<open>Resetting the decoded format\<close>

lemma reset_decoded_fmt_fields:
  "pm_pixelformat (fmt_pix_mp (decoded_fmt (rkvdec2_reset_decoded_fmt layout ctx)))
     = rkvdec2_enum_decoded_fmt ctx 0 (image_fmt ctx)"
  "pm_width (fmt_pix_mp (decoded_fmt (rkvdec2_reset_decoded_fmt layout ctx)))
     = pm_width (fmt_pix_mp (coded_fmt ctx))"
  "pm_height (fmt_pix_mp (decoded_fmt (rkvdec2_reset_decoded_fmt layout ctx)))
     = pm_height (fmt_pix_mp (coded_fmt ctx))"
  by (simp_all add: rkvdec2_reset_decoded_fmt_def rkvdec2_fill_decoded_pixfmt_def
      v4l2_fill_pixfmt_mp_def rkvdec2_reset_fmt_def zero_format_def zero_pix_mp_def Let_def
      split: option.splits prod.splits)

lemma reset_decoded_fmt_sizeimage:
  "sizeimage (pm_plane_fmt (fmt_pix_mp (decoded_fmt (rkvdec2_reset_decoded_fmt layout ctx))) 0)
     = base_sizeimage layout (rkvdec2_enum_decoded_fmt ctx 0 (image_fmt ctx))
         (pm_width (fmt_pix_mp (coded_fmt ctx))) (pm_height (fmt_pix_mp (coded_fmt ctx)))
       + 128 * DIV_ROUND_UP (pm_width (fmt_pix_mp (coded_fmt ctx))) 16
             * DIV_ROUND_UP (pm_height (fmt_pix_mp (coded_fmt ctx))) 16"
  by (simp add: rkvdec2_reset_decoded_fmt_def rkvdec2_fill_decoded_pixfmt_def
      v4l2_fill_pixfmt_mp_def rkvdec2_reset_fmt_def zero_format_def zero_pix_mp_def
      zero_plane_def base_sizeimage_def Let_def
      split: option.splits prod.splits)

lemma session_1080p_enum:
  "rkvdec2_enum_decoded_fmt session_1080p 0 (image_fmt session_1080p) = V4L2_PIX_FMT_NV12"
  by (simp add: rkvdec2_enum_decoded_fmt_def session_1080p_def zero_ctx_def h264_desc_def
      rkvdec2_coded_fmts_def rkvdec2_h264_decoded_fmts_def rkvdec2_image_fmt_match_def)

lemma session_1080p_geometry:
  "pm_width (fmt_pix_mp (coded_fmt session_1080p)) = 1920"
  "pm_height (fmt_pix_mp (coded_fmt session_1080p)) = 1088"
  by (simp_all add: session_1080p_def zero_ctx_def)

section \<open>Frame-size enumeration: result\<close>

lemma find_coded_loop_None:
  "find_coded_loop ds fourcc = None \<longleftrightarrow> fourcc \<notin> cfd_fourcc ` set ds"
  by (induction ds) auto

lemma find_coded_loop_Some:
  "find_coded_loop ds fourcc = Some d \<Longrightarrow> d \<in> set ds \<and> cfd_fourcc d = fourcc"
  by (induction ds) (auto split: if_splits)

text \<open>
  C10. \<open>rkvdec2_enum_framesizes\<close> succeeds exactly when the requested index is 0 and the
  pixel format is the fourcc of an entry of \<open>rkvdec2_coded_fmts\<close>. On success it reports
  a continuous range whose minimum width, minimum height, step width and step height are
  all 1 (not the descriptor's minimum and step) and whose maximum width and height are
  those of the descriptor's envelope; index and pixel format are left as requested.
\<close>

theorem enum_framesizes_result:
  "(fst (rkvdec2_enum_framesizes fsize) = 0
      \<longleftrightarrow> fse_index fsize = 0 \<and> fse_pixel_format fsize \<in> cfd_fourcc ` set rkvdec2_coded_fmts)
   \<and> (fst (rkvdec2_enum_framesizes fsize) = 0 \<longrightarrow>
        (\<exists>desc \<in> set rkvdec2_coded_fmts.
           cfd_fourcc desc = fse_pixel_format fsize
           \<and> snd (rkvdec2_enum_framesizes fsize) =
               fsize\<lparr>fse_type := V4L2_FRMSIZE_TYPE_CONTINUOUS,
                     fse_stepwise := \<lparr>min_width = 1, max_width = max_width (cfd_frmsize desc),
                       step_width = 1, min_height = 1,
                       max_height = max_height (cfd_frmsize desc), step_height = 1\<rparr>\<rparr>))"
proof (cases "rkvdec2_find_coded_fmt_desc (fse_pixel_format fsize)")
  case None
  then have "fse_pixel_format fsize \<notin> cfd_fourcc ` set rkvdec2_coded_fmts"
    by (simp add: rkvdec2_find_coded_fmt_desc_def find_coded_loop_None)
  then show ?thesis using None
    by (simp add: rkvdec2_enum_framesizes_def EINVAL_def)
next
  case (Some desc)
  then have d: "desc \<in> set rkvdec2_coded_fmts" "cfd_fourcc desc = fse_pixel_format fsize"
    using find_coded_loop_Some [of rkvdec2_coded_fmts "fse_pixel_format fsize" desc]
    by (simp_all add: rkvdec2_find_coded_fmt_desc_def)
  then have "fse_pixel_format fsize \<in> cfd_fourcc ` set rkvdec2_coded_fmts" by force
  then show ?thesis using Some d
    by (auto simp: rkvdec2_enum_framesizes_def EINVAL_def intro!: bexI [of _ desc])
qed

theorem enum_framesizes_result_witness:
  "fst (rkvdec2_enum_framesizes
         \<lparr>fse_index = 0, fse_pixel_format = V4L2_PIX_FMT_H264_SLICE, fse_type = 0,
          fse_stepwise = zero_stepwise\<rparr>) = 0
   \<and> snd (rkvdec2_enum_framesizes
         \<lparr>fse_index = 0, fse_pixel_format = V4L2_PIX_FMT_H264_SLICE, fse_type = 0,
          fse_stepwise = zero_stepwise\<rparr>)
       = \<lparr>fse_index = 0, fse_pixel_format = V4L2_PIX_FMT_H264_SLICE,
          fse_type = V4L2_FRMSIZE_TYPE_CONTINUOUS,
          fse_stepwise = \<lparr>min_width = 1, max_width = 65520, step_width = 1,
                     min_height = 1, max_height = 65520, step_height = 1\<rparr>\<rparr>"
  using enum_framesizes_result [of "\<lparr>fse_index = 0, fse_pixel_format = V4L2_PIX_FMT_H264_SLICE,
          fse_type = 0, fse_stepwise = zero_stepwise\<rparr>"]
  by (simp add: rkvdec2_coded_fmts_def)

section \<open>Scratch buffers: release and rollback\<close>

lemma held_after_append: "held_after M (xs @ ys) = held_after (held_after M xs) ys"
  by (simp add: held_after_def)

lemma held_after_Nil: "held_after M [] = M" by (simp add: held_after_def)
lemma held_after_Cons: "held_after M (e # es) = held_after (apply_event M e) es" by (simp add: held_after_def)

lemma diff1_mono: "M \<subseteq># M' \<Longrightarrow> M - N \<subseteq># M' - (N :: 'a multiset)"
  by (simp add: subseteq_mset_def diff_le_mono)
lemma apply_event_mono: "M \<subseteq># M' \<Longrightarrow> apply_event M e \<subseteq># apply_event M' e"
  by (cases e) (auto simp: diff1_mono)

lemma held_after_mono: "M \<subseteq># M' \<Longrightarrow> held_after M evs \<subseteq># held_after M' evs"
  by (induction evs arbitrary: M M') (auto simp: held_after_Nil held_after_Cons apply_event_mono)

lemma alloc_one_Some_held:
  assumes "rcb_alloc_one dev env w h i = (Some b, evs)"
  shows "held_after M evs = M + rcb_resources dev b \<and> rcb_cpu b \<noteq> 0"
  using assms
  by (auto simp: rcb_alloc_one_def Let_def held_after_def rcb_resources_def
      split: if_splits prod.splits)


lemma free_one_held: "held_after M (rcb_free_one dev b) \<subseteq># M"
  by (auto simp: rcb_free_one_def held_after_def split: rkvdec2_alloc_type.splits
      intro: subset_mset.order_trans [OF diff_subset_eq_self diff_subset_eq_self])

lemma free_one_held_resources:
  "rcb_cpu b \<noteq> 0 \<Longrightarrow> held_after (M + rcb_resources dev b) (rcb_free_one dev b) \<subseteq># M"
  by (auto simp: rcb_free_one_def held_after_def rcb_resources_def split: rkvdec2_alloc_type.splits)

lemma free_rcb_loop_held: "held_after M (free_rcb_loop dev bufs i) \<subseteq># M"
proof (induction dev bufs i arbitrary: M rule: free_rcb_loop.induct)
  case (1 dev bufs i)
  show ?case
  proof (cases "i < RKVDEC2_RCB_COUNT")
    case False
    then show ?thesis by (subst free_rcb_loop.simps) (simp add: held_after_Nil)
  next
    case True
    have "held_after M (free_rcb_loop dev bufs i)
            = held_after (held_after M (rcb_free_one dev (bufs i))) (free_rcb_loop dev bufs (Suc i))"
      using True by (subst free_rcb_loop.simps) (simp add: held_after_append)
    also have "\<dots> \<subseteq># held_after M (rcb_free_one dev (bufs i))"
      using "1.IH" [OF True] .
    also have "\<dots> \<subseteq># M" by (rule free_one_held)
    finally show ?thesis .
  qed
qed

text \<open>
  Releasing the records from \<open>i\<close> on gives back what the records \<open>i..<n\<close> hold, when each
  of them has a buffer.
\<close>

lemma free_rcb_loop_rollback:
  assumes "i \<le> n" "n \<le> RKVDEC2_RCB_COUNT" "\<forall>j. i \<le> j \<and> j < n \<longrightarrow> rcb_cpu (bufs j) \<noteq> 0"
  shows "held_after (M + (\<Sum>j\<in>{i..<n}. rcb_resources dev (bufs j))) (free_rcb_loop dev bufs i) \<subseteq># M"
  using assms
proof (induction dev bufs i arbitrary: M rule: free_rcb_loop.induct)
  case (1 dev bufs i)
  show ?case
  proof (cases "i < n")
    case False
    then have "{i..<n} = {}" by simp
    then show ?thesis by (simp add: free_rcb_loop_held)
  next
    case True
    then have lt: "i < RKVDEC2_RCB_COUNT" using "1.prems" by simp
    have split: "(\<Sum>j\<in>{i..<n}. rcb_resources dev (bufs j))
                   = rcb_resources dev (bufs i) + (\<Sum>j\<in>{Suc i..<n}. rcb_resources dev (bufs j))"
      using True by (simp add: sum.atLeast_Suc_lessThan)
    have cpu: "rcb_cpu (bufs i) \<noteq> 0" using "1.prems" True by simp
    let ?rest = "\<Sum>j\<in>{Suc i..<n}. rcb_resources dev (bufs j)"
    have step: "held_after (M + ?rest + rcb_resources dev (bufs i)) (rcb_free_one dev (bufs i))
                  \<subseteq># M + ?rest"
      by (rule free_one_held_resources [OF cpu])
    have "held_after (M + (\<Sum>j\<in>{i..<n}. rcb_resources dev (bufs j))) (free_rcb_loop dev bufs i)
            = held_after (held_after (M + ?rest + rcb_resources dev (bufs i)) (rcb_free_one dev (bufs i)))
                (free_rcb_loop dev bufs (Suc i))"
      using lt by (subst free_rcb_loop.simps) (simp add: held_after_append split ac_simps)
    also have "\<dots> \<subseteq># held_after (M + ?rest) (free_rcb_loop dev bufs (Suc i))"
      by (rule held_after_mono [OF step])
    also have "\<dots> \<subseteq># M"
      using "1.IH" [OF lt, of M] "1.prems" True by simp
    finally show ?thesis .
  qed
qed

lemma free_rcb_loop_contains:
  assumes "i \<le> j" "j < RKVDEC2_RCB_COUNT"
  shows "set (rcb_free_one dev (bufs j)) \<subseteq> set (free_rcb_loop dev bufs i)"
  using assms
proof (induction dev bufs i rule: free_rcb_loop.induct)
  case (1 dev bufs i)
  have lt: "i < RKVDEC2_RCB_COUNT" using "1.prems" by simp
  show ?case
  proof (cases "i = j")
    case True
    then show ?thesis using lt by (subst free_rcb_loop.simps) simp
  next
    case False
    then have "Suc i \<le> j" using "1.prems" by simp
    then have "set (rcb_free_one dev (bufs j)) \<subseteq> set (free_rcb_loop dev bufs (Suc i))"
      using "1.IH" [OF lt] "1.prems" by simp
    then show ?thesis using lt by (subst free_rcb_loop.simps) auto
  qed
qed


lemma session_1080p_decoded_geometry:
  "pm_width (fmt_pix_mp (decoded_fmt session_1080p_decoded)) = 1920"
  "pm_height (fmt_pix_mp (decoded_fmt session_1080p_decoded)) = 1088"
  by (simp_all add: session_1080p_decoded_def reset_decoded_fmt_fields session_1080p_geometry)

lemma pool_of_three_alloc:
  "i < 3 \<Longrightarrow> fst (rcb_alloc_one sram_iommu_dev pool_of_three w h i) \<noteq> None"
  "fst (rcb_alloc_one sram_iommu_dev pool_of_three w h 3) = None"
proof -
  assume "i < 3"
  then have "i = 0 \<or> i = 1 \<or> i = 2" by auto
  then show "fst (rcb_alloc_one sram_iommu_dev pool_of_three w h i) \<noteq> None"
    by (auto simp: rcb_alloc_one_def sram_iommu_dev_def pool_of_three_def Let_def)
next
  show "fst (rcb_alloc_one sram_iommu_dev pool_of_three w h 3) = None"
    by (simp add: rcb_alloc_one_def sram_iommu_dev_def pool_of_three_def Let_def)
qed

section \<open>Scratch buffers: sizes\<close>

lemma and_not_mask_12: "(y :: u64) AND - 4096 = push_bit 12 (drop_bit 12 y)"
proof -
  have "(- 4096 :: u64) = - (2 ^ 12)" by simp
  also have "\<dots> = NOT (mask 12)" by (rule minus_exp_eq_not_mask)
  finally have m: "(- 4096 :: u64) = NOT (mask 12)" .
  have "y AND NOT (mask n) = push_bit n (drop_bit n y)" for n
    by (rule bit_eqI) (auto simp: bit_simps)
  then show ?thesis unfolding m .
qed

lemma unat_ucast_u8_u32: "unat (ucast (m :: u8) :: u32) = unat m"
proof -
  have "unat m < 2 ^ 8" using unsigned_less [of m] by simp
  then have "unat m < 2 ^ 32" by simp
  then show ?thesis
    by (simp only: unsigned_ucast_eq take_bit_nat_eq_self_iff len_num0 len_num1 len_bit0) simp
qed

lemma unat_ucast_u32_u64: "unat (ucast (m :: u32) :: u64) = unat m"
proof -
  have "unat m < 2 ^ 32" using unsigned_less [of m] by simp
  then have "unat m < 2 ^ 64" by simp
  then show ?thesis
    by (simp only: unsigned_ucast_eq take_bit_nat_eq_self_iff len_num0 len_num1 len_bit0) simp
qed

lemma unat_ALIGN_4096:
  fixes x :: u64
  assumes "unat x < 2 ^ 32"
  shows "unat (ALIGN x 0x1000) = ((unat x + 4095) div 4096) * 4096"
proof -
  have s: "unat (x + 0xfff) = unat x + 4095"
    using assms by (simp add: unat_word_ariths)
  have "ALIGN x 0x1000 = push_bit 12 (drop_bit 12 (x + 0xfff))"
    by (simp add: ALIGN_def and_not_mask_12)
  also have "unat \<dots> = (unat (x + 0xfff) div 4096 * 4096) mod 2 ^ 64"
    by (simp add: push_bit_eq_mult drop_bit_eq_div unat_word_ariths unat_div)
  also have "\<dots> = (unat x + 4095) div 4096 * 4096"
    using assms s by simp
  finally show ?thesis .
qed

lemma rcb_multiplier_le:
  "k < RKVDEC2_RCB_COUNT \<Longrightarrow> unat (multiplier (rcb_sizes ! k)) \<le> 67"
proof -
  assume "k < RKVDEC2_RCB_COUNT"
  then have "k \<in> {0, 1, 2, 3, 4, 5, 6, 7, 8, 9}" by (auto simp: RKVDEC2_RCB_COUNT_def)
  then show ?thesis by (auto simp: rcb_sizes_def)
qed

lemma unat_RCB_SIZE:
  assumes "k < RKVDEC2_RCB_COUNT" "unat w \<le> 65520" "unat h \<le> 65520"
  shows "unat (RCB_SIZE k w h)
           = unat (multiplier (rcb_sizes ! k))
             * (if axis (rcb_sizes ! k) = PIC_HEIGHT then unat h else unat w)"
proof -
  define d where "d = (case axis (rcb_sizes ! k) of PIC_HEIGHT \<Rightarrow> h | PIC_WIDTH \<Rightarrow> w)"
  have dle: "unat d \<le> 65520" using assms(2,3) by (simp add: d_def split: rcb_axis.splits)
  have m: "unat (ucast (multiplier (rcb_sizes ! k)) :: u32) = unat (multiplier (rcb_sizes ! k))"
    by (rule unat_ucast_u8_u32)
  have "unat (multiplier (rcb_sizes ! k)) * unat d \<le> 67 * 65520"
    using rcb_multiplier_le [OF assms(1)] dle by (rule mult_le_mono)
  then have "unat (multiplier (rcb_sizes ! k)) * unat d < 2 ^ 32" by simp
  then have "unat (ucast (multiplier (rcb_sizes ! k)) * d :: u32)
               = unat (multiplier (rcb_sizes ! k)) * unat d"
    using m by (simp add: unat_word_ariths)
  then show ?thesis
    by (simp add: RCB_SIZE_def d_def split: rcb_axis.splits)
qed

section \<open>Scratch buffers: fallback to system memory\<close>

text \<open>
  C8. For one kind \<open>i\<close> in the allocation loop, with \<open>raw\<close> the un-rounded formula
  size: if the pool hands out a block but \<open>iommu_map\<close> fails, the calls are the pool
  allocation, the failed mapping, \<open>gen_pool_free\<close> of that block and then
  \<open>dma_alloc_coherent\<close> of \<open>raw\<close> bytes, whose buffer is stored with type
  \<open>RKVDEC2_ALLOC_DMA\<close>. System memory is requested exactly when there is no pool, the
  pool returned \<open>NULL\<close> or the mapping failed; every such request and every record of
  that type has the size \<open>raw\<close>, not the 4096-aligned one; and every allocation call made
  is one that returns zero-initialised memory.
\<close>

theorem rcb_alloc_one_fallback:
  fixes dev :: rkvdec2_dev and env :: mem_env and w h :: u32 and i :: nat
  defines "raw \<equiv> (ucast (RCB_SIZE i w h) :: u64)"
  defines "req \<equiv> (if iommu_domain dev then ALIGN raw 0x1000 else raw)"
  defines "P \<equiv> gen_pool_dma_zalloc_align env i req 0x1000"
  defines "D \<equiv> dma_alloc_coherent env i raw"
  defines "res \<equiv> rcb_alloc_one dev env w h i"
  shows "(sram_pool dev \<and> iommu_domain dev \<and> fst P \<noteq> 0
            \<and> iommu_map env i (fst P) (snd P) req \<noteq> 0
          \<longrightarrow> snd res = [GenPoolDmaZallocAlign req 0x1000 (fst P) (snd P),
                         IommuMap (fst P) (snd P) req (iommu_map env i (fst P) (snd P) req),
                         GenPoolFree (fst P) req,
                         DmaAllocCoherent raw (fst D) (snd D)]
              \<and> fst res = (if fst D = 0 then None
                            else Some \<lparr>rcb_cpu = fst D, rcb_dma = snd D, rcb_size = raw,
                                       rcb_type = RKVDEC2_ALLOC_DMA\<rparr>))
       \<and> ((\<exists>sz c d. DmaAllocCoherent sz c d \<in> set (snd res))
            \<longleftrightarrow> \<not> sram_pool dev \<or> fst P = 0
                  \<or> (iommu_domain dev \<and> iommu_map env i (fst P) (snd P) req \<noteq> 0))
       \<and> (\<forall>sz c d. DmaAllocCoherent sz c d \<in> set (snd res) \<longrightarrow> sz = raw)
       \<and> (\<forall>b. fst res = Some b \<and> rcb_type b = RKVDEC2_ALLOC_DMA \<longrightarrow> rcb_size b = raw)
       \<and> (\<forall>e \<in> set (snd res). is_allocation e \<longrightarrow> zero_initialised e)"
proof (intro conjI)
  show "sram_pool dev \<and> iommu_domain dev \<and> fst P \<noteq> 0
            \<and> iommu_map env i (fst P) (snd P) req \<noteq> 0
          \<longrightarrow> snd res = [GenPoolDmaZallocAlign req 0x1000 (fst P) (snd P),
                         IommuMap (fst P) (snd P) req (iommu_map env i (fst P) (snd P) req),
                         GenPoolFree (fst P) req,
                         DmaAllocCoherent raw (fst D) (snd D)]
              \<and> fst res = (if fst D = 0 then None
                            else Some \<lparr>rcb_cpu = fst D, rcb_dma = snd D, rcb_size = raw,
                                       rcb_type = RKVDEC2_ALLOC_DMA\<rparr>)"
    by (auto simp: res_def rcb_alloc_one_def Let_def P_def D_def req_def raw_def
        split: prod.splits)
next
  show "(\<exists>sz c d. DmaAllocCoherent sz c d \<in> set (snd res))
            \<longleftrightarrow> \<not> sram_pool dev \<or> fst P = 0
                  \<or> (iommu_domain dev \<and> iommu_map env i (fst P) (snd P) req \<noteq> 0)"
    by (auto simp: res_def rcb_alloc_one_def Let_def P_def D_def req_def raw_def
        split: prod.splits if_splits)
next
  show "\<forall>sz c d. DmaAllocCoherent sz c d \<in> set (snd res) \<longrightarrow> sz = raw"
    by (auto simp: res_def rcb_alloc_one_def Let_def raw_def split: prod.splits if_splits)
next
  show "\<forall>b. fst res = Some b \<and> rcb_type b = RKVDEC2_ALLOC_DMA \<longrightarrow> rcb_size b = raw"
    by (auto simp: res_def rcb_alloc_one_def Let_def raw_def split: prod.splits if_splits)
next
  show "\<forall>e \<in> set (snd res). is_allocation e \<longrightarrow> zero_initialised e"
    by (auto simp: res_def rcb_alloc_one_def Let_def split: prod.splits if_splits)
qed

lemma RCB_SIZE_0_1920: "RCB_SIZE 0 1920 1088 = 11520"
  by (simp add: RCB_SIZE_def rcb_sizes_def)

lemma ALIGN_11520: "ALIGN 11520 0x1000 = 12288"
  by (simp add: ALIGN_def)

theorem rcb_alloc_one_fallback_witness:
  "rcb_alloc_one sram_iommu_dev pool_map_fails 1920 1088 0
     = (Some \<lparr>rcb_cpu = 0xffff000012340000, rcb_dma = 0x12340000, rcb_size = 11520,
              rcb_type = RKVDEC2_ALLOC_DMA\<rparr>,
        [GenPoolDmaZallocAlign 12288 0x1000 0xff001000 0x1000,
         IommuMap 0xff001000 0x1000 12288 (- 12),
         GenPoolFree 0xff001000 12288,
         DmaAllocCoherent 11520 0xffff000012340000 0x12340000])
   \<and> zero_initialised (GenPoolDmaZallocAlign 12288 0x1000 0xff001000 0x1000)
   \<and> zero_initialised (DmaAllocCoherent 11520 0xffff000012340000 0x12340000)"
proof -
  have dev: "sram_pool sram_iommu_dev" "iommu_domain sram_iommu_dev"
    by (simp_all add: sram_iommu_dev_def)
  have env: "gen_pool_dma_zalloc_align pool_map_fails 0 12288 0x1000 = (0xff001000, 0x1000)"
    "iommu_map pool_map_fails 0 0xff001000 0x1000 12288 = - 12"
    "dma_alloc_coherent pool_map_fails 0 11520 = (0xffff000012340000, 0x12340000)"
    by (simp_all add: pool_map_fails_def)
  have r: "snd (rcb_alloc_one sram_iommu_dev pool_map_fails 1920 1088 0)
             = [GenPoolDmaZallocAlign 12288 0x1000 0xff001000 0x1000,
                IommuMap 0xff001000 0x1000 12288 (- 12),
                GenPoolFree 0xff001000 12288,
                DmaAllocCoherent 11520 0xffff000012340000 0x12340000]
           \<and> fst (rcb_alloc_one sram_iommu_dev pool_map_fails 1920 1088 0)
             = Some \<lparr>rcb_cpu = 0xffff000012340000, rcb_dma = 0x12340000, rcb_size = 11520,
                     rcb_type = RKVDEC2_ALLOC_DMA\<rparr>"
    using rcb_alloc_one_fallback [of sram_iommu_dev pool_map_fails 0 1920 1088, THEN conjunct1]
    by (simp add: dev env RCB_SIZE_0_1920 ALIGN_11520)
  have z: "\<forall>e \<in> set (snd (rcb_alloc_one sram_iommu_dev pool_map_fails 1920 1088 0)).
             is_allocation e \<longrightarrow> zero_initialised e"
    by (rule rcb_alloc_one_fallback [of sram_iommu_dev pool_map_fails 0 1920 1088,
          THEN conjunct2, THEN conjunct2, THEN conjunct2, THEN conjunct2])
  have z1: "zero_initialised (GenPoolDmaZallocAlign 12288 0x1000 0xff001000 0x1000)"
    using z r by simp
  have z2: "zero_initialised (DmaAllocCoherent 11520 0xffff000012340000 0x12340000)"
    using z r by simp
  show ?thesis using r z1 z2 by (simp only: prod_eq_iff fst_conv snd_conv simp_thms)
qed

section \<open>Decode-queue start: allocation and rollback\<close>

lemma allocate_rcb_loop_done:
  assumes "allocate_rcb_loop dev env w h i bufs = (0, bufs', evs)"
  shows "(\<forall>j. j < i \<longrightarrow> bufs' j = bufs j)
       \<and> (\<forall>j. i \<le> j \<and> j < RKVDEC2_RCB_COUNT \<longrightarrow> rcb_cpu (bufs' j) \<noteq> 0)
       \<and> (\<forall>M. held_after M evs
                 = M + (\<Sum>j\<in>{i..<RKVDEC2_RCB_COUNT}. rcb_resources dev (bufs' j)))"
  using assms
proof (induction dev env w h i bufs arbitrary: bufs' evs rule: allocate_rcb_loop.induct)
  case (1 dev env w h i bufs)
  show ?case
  proof (cases "i < RKVDEC2_RCB_COUNT")
    case False
    then have "allocate_rcb_loop dev env w h i bufs = (0, bufs, [])"
      by (subst allocate_rcb_loop.simps) simp
    then have "bufs' = bufs" "evs = []" using "1.prems" by simp_all
    then show ?thesis using False by (auto simp: held_after_Nil)
  next
    case lt: True
    obtain r es where one: "rcb_alloc_one dev env w h i = (r, es)"
      by (cases "rcb_alloc_one dev env w h i")
    have "r \<noteq> None"
    proof
      assume "r = None"
      then have "allocate_rcb_loop dev env w h i bufs = (- ENOMEM, bufs, es)"
        using lt one by (subst allocate_rcb_loop.simps) simp
      then show False using "1.prems" by (simp add: ENOMEM_def)
    qed
    then obtain b where b: "r = Some b" by blast
    obtain ret bufs2 evs2 where
      rec: "allocate_rcb_loop dev env w h (Suc i) (bufs(i := b)) = (ret, bufs2, evs2)"
      by (cases "allocate_rcb_loop dev env w h (Suc i) (bufs(i := b))")
    have "allocate_rcb_loop dev env w h i bufs = (ret, bufs2, es @ evs2)"
      using lt one b rec by (subst allocate_rcb_loop.simps) simp
    then have eqs: "ret = 0" "bufs' = bufs2" "evs = es @ evs2" using "1.prems" by simp_all
    have IH: "(\<forall>j. j < Suc i \<longrightarrow> bufs2 j = (bufs(i := b)) j)
       \<and> (\<forall>j. Suc i \<le> j \<and> j < RKVDEC2_RCB_COUNT \<longrightarrow> rcb_cpu (bufs2 j) \<noteq> 0)
       \<and> (\<forall>M. held_after M evs2
                 = M + (\<Sum>j\<in>{Suc i..<RKVDEC2_RCB_COUNT}. rcb_resources dev (bufs2 j)))"
    proof -
      have rec0: "allocate_rcb_loop dev env w h (Suc i) (bufs(i := b)) = (0, bufs2, evs2)"
        unfolding eqs(1) [symmetric] by (rule rec)
      show ?thesis by (rule "1.IH" [OF lt one [symmetric] b rec0])
    qed
    have keep: "bufs2 i = b" using IH by simp
    have one_held: "\<And>M. held_after M es = M + rcb_resources dev b" and cpu: "rcb_cpu b \<noteq> 0"
      using alloc_one_Some_held [of dev env w h i b es] one b by simp_all
    have old: "\<forall>j. j < i \<longrightarrow> bufs' j = bufs j" using IH eqs(2) by simp
    have new: "\<forall>j. i \<le> j \<and> j < RKVDEC2_RCB_COUNT \<longrightarrow> rcb_cpu (bufs' j) \<noteq> 0"
    proof (intro allI impI)
      fix j assume j: "i \<le> j \<and> j < RKVDEC2_RCB_COUNT"
      show "rcb_cpu (bufs' j) \<noteq> 0"
      proof (cases "j = i")
        case True
        then show ?thesis using keep cpu eqs(2) by simp
      next
        case False
        then show ?thesis using j IH eqs(2) by simp
      qed
    qed
    have "\<forall>M. held_after M evs
                 = M + (\<Sum>j\<in>{i..<RKVDEC2_RCB_COUNT}. rcb_resources dev (bufs' j))"
    proof
      fix M
      have "held_after M evs
              = M + rcb_resources dev (bufs2 i)
                + (\<Sum>j\<in>{Suc i..<RKVDEC2_RCB_COUNT}. rcb_resources dev (bufs2 j))"
        using IH one_held keep eqs(3) by (simp add: held_after_append)
      also have "\<dots> = M + (\<Sum>j\<in>{i..<RKVDEC2_RCB_COUNT}. rcb_resources dev (bufs2 j))"
        using lt by (simp add: sum.atLeast_Suc_lessThan)
      finally show "held_after M evs
                 = M + (\<Sum>j\<in>{i..<RKVDEC2_RCB_COUNT}. rcb_resources dev (bufs' j))"
        using eqs(2) by simp
    qed
    with old new show ?thesis by blast
  qed
qed

lemma allocate_rcb_loop_succeeds:
  assumes "\<forall>j. i \<le> j \<and> j < RKVDEC2_RCB_COUNT \<longrightarrow> fst (rcb_alloc_one dev env w h j) \<noteq> None"
  shows "fst (allocate_rcb_loop dev env w h i bufs) = 0"
  using assms
proof (induction dev env w h i bufs rule: allocate_rcb_loop.induct)
  case (1 dev env w h i bufs)
  show ?case
  proof (cases "i < RKVDEC2_RCB_COUNT")
    case False
    then show ?thesis by (subst allocate_rcb_loop.simps) simp
  next
    case lt: True
    obtain r es where one: "rcb_alloc_one dev env w h i = (r, es)"
      by (cases "rcb_alloc_one dev env w h i")
    then obtain b where b: "r = Some b" using "1.prems" lt by fastforce
    have "\<forall>j. Suc i \<le> j \<and> j < RKVDEC2_RCB_COUNT \<longrightarrow> fst (rcb_alloc_one dev env w h j) \<noteq> None"
    proof (intro allI impI)
      fix j assume "Suc i \<le> j \<and> j < RKVDEC2_RCB_COUNT"
      then have "i \<le> j \<and> j < RKVDEC2_RCB_COUNT" by arith
      then show "fst (rcb_alloc_one dev env w h j) \<noteq> None" using "1.prems" by blast
    qed
    then have "fst (allocate_rcb_loop dev env w h (Suc i) (bufs(i := b))) = 0"
      by (rule "1.IH" [OF lt one [symmetric] b])
    then obtain bufs2 evs2 where
      rec: "allocate_rcb_loop dev env w h (Suc i) (bufs(i := b)) = (0, bufs2, evs2)"
      by (cases "allocate_rcb_loop dev env w h (Suc i) (bufs(i := b))") simp
    have "allocate_rcb_loop dev env w h i bufs = (0, bufs2, es @ evs2)"
      using lt one b rec by (subst allocate_rcb_loop.simps) simp
    then show ?thesis by simp
  qed
qed

lemma allocate_rcb_zero:
  assumes "rkvdec2_allocate_rcb dev env ctx = (0, ctx1, evs1)"
  shows "(\<forall>j. j < RKVDEC2_RCB_COUNT \<longrightarrow> rcb_cpu (rcb_bufs ctx1 j) \<noteq> 0)
       \<and> (\<forall>M. held_after M evs1
                 = M + (\<Sum>j\<in>{0..<RKVDEC2_RCB_COUNT}. rcb_resources dev (rcb_bufs ctx1 j)))"
proof -
  let ?w = "pm_width (fmt_pix_mp (decoded_fmt ctx))"
  let ?h = "pm_height (fmt_pix_mp (decoded_fmt ctx))"
  let ?bufs0 = "(rcb_bufs ctx)(0 := zero_rcb_buf)"
  obtain ret bufs evs where loop: "allocate_rcb_loop dev env ?w ?h 0 ?bufs0 = (ret, bufs, evs)"
    by (cases "allocate_rcb_loop dev env ?w ?h 0 ?bufs0")
  have "ret = 0"
  proof (rule ccontr)
    assume "ret \<noteq> 0"
    then have "fst (rkvdec2_allocate_rcb dev env ctx) = ret"
      using loop by (simp add: rkvdec2_allocate_rcb_def rkvdec2_free_rcb_def)
    then show False using assms \<open>ret \<noteq> 0\<close> by simp
  qed
  then have "rkvdec2_allocate_rcb dev env ctx = (0, ctx\<lparr>rcb_bufs := bufs\<rparr>, evs)"
    using loop by (simp add: rkvdec2_allocate_rcb_def)
  then have eqs: "ctx1 = ctx\<lparr>rcb_bufs := bufs\<rparr>" "evs1 = evs" using assms by simp_all
  have loop0: "allocate_rcb_loop dev env ?w ?h 0 ?bufs0 = (0, bufs, evs)"
    using loop \<open>ret = 0\<close> by simp
  show ?thesis
    using allocate_rcb_loop_done [OF loop0] eqs by simp
qed

lemma allocate_rcb_succeeds:
  assumes "\<forall>j. j < RKVDEC2_RCB_COUNT \<longrightarrow>
             fst (rcb_alloc_one dev env (pm_width (fmt_pix_mp (decoded_fmt ctx)))
                    (pm_height (fmt_pix_mp (decoded_fmt ctx))) j) \<noteq> None"
  shows "fst (rkvdec2_allocate_rcb dev env ctx) = 0"
proof -
  let ?w = "pm_width (fmt_pix_mp (decoded_fmt ctx))"
  let ?h = "pm_height (fmt_pix_mp (decoded_fmt ctx))"
  let ?bufs0 = "(rcb_bufs ctx)(0 := zero_rcb_buf)"
  have "fst (allocate_rcb_loop dev env ?w ?h 0 ?bufs0) = 0"
    using assms by (intro allocate_rcb_loop_succeeds) simp
  then obtain bufs evs where "allocate_rcb_loop dev env ?w ?h 0 ?bufs0 = (0, bufs, evs)"
    by (cases "allocate_rcb_loop dev env ?w ?h 0 ?bufs0") simp
  then show ?thesis by (simp add: rkvdec2_allocate_rcb_def)
qed

text \<open>
  C9. For a session with a coded descriptor: \<open>rkvdec2_start_streaming\<close> on the capture
  queue returns 0, changes nothing and makes no call. On the output queue it first runs
  \<open>rkvdec2_allocate_rcb\<close>, and when that fails the result of start is the result of the
  allocation (the hook is not called). When the allocation succeeds and the descriptor's
  \<open>start\<close> hook returns a failure, start returns the hook's failure after
  \<open>rkvdec2_free_rcb\<close>; if the hook has left the records alone, the release calls of all
  10 records are among the calls made and the session holds no more than before start.
\<close>

theorem start_streaming_rollback:
  fixes ops :: rkvdec2_coded_fmt_ops
  assumes desc: "coded_fmt_desc ctx = Some desc"
  shows "rkvdec2_start_streaming ops dev env V4L2_BUF_TYPE_VIDEO_CAPTURE_MPLANE ctx = (0, ctx, [])
       \<and> (fst (rkvdec2_allocate_rcb dev env ctx) \<noteq> 0 \<longrightarrow>
            rkvdec2_start_streaming ops dev env V4L2_BUF_TYPE_VIDEO_OUTPUT_MPLANE ctx
              = rkvdec2_allocate_rcb dev env ctx)
       \<and> (\<forall>ctx1 evs1 start ret ctx2.
            rkvdec2_allocate_rcb dev env ctx = (0, ctx1, evs1) \<and> ops_start ops = Some start
            \<and> start ctx1 = (ret, ctx2) \<and> ret \<noteq> 0
            \<longrightarrow> rkvdec2_start_streaming ops dev env V4L2_BUF_TYPE_VIDEO_OUTPUT_MPLANE ctx
                  = (ret, ctx2, evs1 @ snd (rkvdec2_free_rcb dev ctx2))
                \<and> (rcb_bufs ctx2 = rcb_bufs ctx1 \<longrightarrow>
                     (\<forall>i<RKVDEC2_RCB_COUNT.
                        rcb_free_one dev (rcb_bufs ctx1 i) \<noteq> []
                        \<and> set (rcb_free_one dev (rcb_bufs ctx1 i))
                            \<subseteq> set (snd (rkvdec2_free_rcb dev ctx2)))
                     \<and> (\<forall>M. held_after M (evs1 @ snd (rkvdec2_free_rcb dev ctx2)) \<subseteq># M)))"
proof (intro conjI allI impI)
  show "rkvdec2_start_streaming ops dev env V4L2_BUF_TYPE_VIDEO_CAPTURE_MPLANE ctx = (0, ctx, [])"
    by (simp add: rkvdec2_start_streaming_def V4L2_TYPE_IS_CAPTURE_def V4L2_TYPE_IS_OUTPUT_def)
next
  assume "fst (rkvdec2_allocate_rcb dev env ctx) \<noteq> 0"
  then show "rkvdec2_start_streaming ops dev env V4L2_BUF_TYPE_VIDEO_OUTPUT_MPLANE ctx
              = rkvdec2_allocate_rcb dev env ctx"
    using desc
    by (cases "rkvdec2_allocate_rcb dev env ctx")
       (simp add: rkvdec2_start_streaming_def V4L2_TYPE_IS_CAPTURE_def V4L2_TYPE_IS_OUTPUT_def)
next
  fix ctx1 evs1 start ret ctx2
  assume a: "rkvdec2_allocate_rcb dev env ctx = (0, ctx1, evs1) \<and> ops_start ops = Some start
            \<and> start ctx1 = (ret, ctx2) \<and> ret \<noteq> 0"
  then show "rkvdec2_start_streaming ops dev env V4L2_BUF_TYPE_VIDEO_OUTPUT_MPLANE ctx
                  = (ret, ctx2, evs1 @ snd (rkvdec2_free_rcb dev ctx2))"
    using desc
    by (simp add: rkvdec2_start_streaming_def V4L2_TYPE_IS_CAPTURE_def V4L2_TYPE_IS_OUTPUT_def
        rkvdec2_free_rcb_def)
next
  fix ctx1 evs1 start ret ctx2 i
  assume a: "rkvdec2_allocate_rcb dev env ctx = (0, ctx1, evs1) \<and> ops_start ops = Some start
            \<and> start ctx1 = (ret, ctx2) \<and> ret \<noteq> 0"
    and same: "rcb_bufs ctx2 = rcb_bufs ctx1" and i: "i < RKVDEC2_RCB_COUNT"
  have "rcb_cpu (rcb_bufs ctx1 i) \<noteq> 0" using allocate_rcb_zero [of dev env ctx ctx1 evs1] a i by simp
  then show "rcb_free_one dev (rcb_bufs ctx1 i) \<noteq> []"
    by (simp add: rcb_free_one_def split: rkvdec2_alloc_type.splits)
next
  fix ctx1 ctx2 :: rkvdec2_ctx and i :: nat
  assume same: "rcb_bufs ctx2 = rcb_bufs ctx1" and i: "i < RKVDEC2_RCB_COUNT"
  show "set (rcb_free_one dev (rcb_bufs ctx1 i)) \<subseteq> set (snd (rkvdec2_free_rcb dev ctx2))"
    using free_rcb_loop_contains [of 0 i dev "rcb_bufs ctx1"] same i
    by (simp add: rkvdec2_free_rcb_def)
next
  fix ctx1 evs1 start ret ctx2 M
  assume a: "rkvdec2_allocate_rcb dev env ctx = (0, ctx1, evs1) \<and> ops_start ops = Some start
            \<and> start ctx1 = (ret, ctx2) \<and> ret \<noteq> 0"
    and same: "rcb_bufs ctx2 = rcb_bufs ctx1"
  have z: "(\<forall>j. j < RKVDEC2_RCB_COUNT \<longrightarrow> rcb_cpu (rcb_bufs ctx1 j) \<noteq> 0)"
      "\<And>M. held_after M evs1
                 = M + (\<Sum>j\<in>{0..<RKVDEC2_RCB_COUNT}. rcb_resources dev (rcb_bufs ctx1 j))"
    using allocate_rcb_zero [of dev env ctx ctx1 evs1] a by simp_all
  have "held_after M (evs1 @ snd (rkvdec2_free_rcb dev ctx2))
          = held_after (M + (\<Sum>j\<in>{0..<RKVDEC2_RCB_COUNT}. rcb_resources dev (rcb_bufs ctx1 j)))
              (free_rcb_loop dev (rcb_bufs ctx1) 0)"
    using z(2) same by (simp add: held_after_append rkvdec2_free_rcb_def)
  also have "\<dots> \<subseteq># M"
    using free_rcb_loop_rollback [of 0 RKVDEC2_RCB_COUNT "rcb_bufs ctx1" M dev] z(1) by simp
  finally show "held_after M (evs1 @ snd (rkvdec2_free_rcb dev ctx2)) \<subseteq># M" .
qed

lemma ram_plenty_alloc:
  assumes "j < RKVDEC2_RCB_COUNT"
  shows "fst (rcb_alloc_one ram_only_dev ram_plenty w h j) \<noteq> None"
proof -
  have "j \<in> {0, 1, 2, 3, 4, 5, 6, 7, 8, 9}" using assms by (auto simp: RKVDEC2_RCB_COUNT_def)
  then show ?thesis
    by (auto simp: rcb_alloc_one_def ram_only_dev_def ram_plenty_def Let_def)
qed

theorem start_streaming_rollback_witness:
  "coded_fmt_desc session_1080p_decoded = Some h264_desc
   \<and> rkvdec2_start_streaming failing_start_ops ram_only_dev ram_plenty
        V4L2_BUF_TYPE_VIDEO_CAPTURE_MPLANE session_1080p_decoded = (0, session_1080p_decoded, [])
   \<and> fst (rkvdec2_start_streaming failing_start_ops ram_only_dev ram_plenty
        V4L2_BUF_TYPE_VIDEO_OUTPUT_MPLANE session_1080p_decoded) = - 5
   \<and> held_after {#} (snd (snd (rkvdec2_start_streaming failing_start_ops ram_only_dev ram_plenty
        V4L2_BUF_TYPE_VIDEO_OUTPUT_MPLANE session_1080p_decoded))) = {#}"
proof -
  have d: "coded_fmt_desc session_1080p_decoded = Some h264_desc"
    by (simp add: session_1080p_decoded_def rkvdec2_reset_decoded_fmt_def Let_def
        session_1080p_def zero_ctx_def split: prod.splits)
  have "fst (rkvdec2_allocate_rcb ram_only_dev ram_plenty session_1080p_decoded) = 0"
    by (rule allocate_rcb_succeeds) (simp add: ram_plenty_alloc)
  then obtain ctx1 evs1 where
    al: "rkvdec2_allocate_rcb ram_only_dev ram_plenty session_1080p_decoded = (0, ctx1, evs1)"
    by (cases "rkvdec2_allocate_rcb ram_only_dev ram_plenty session_1080p_decoded") simp
  have st: "ops_start failing_start_ops = Some (\<lambda>ctx. (- 5, ctx))"
    by (simp add: failing_start_ops_def)
  note t = start_streaming_rollback [OF d, of failing_start_ops ram_only_dev ram_plenty]
  have cap: "rkvdec2_start_streaming failing_start_ops ram_only_dev ram_plenty
        V4L2_BUF_TYPE_VIDEO_CAPTURE_MPLANE session_1080p_decoded = (0, session_1080p_decoded, [])"
    by (rule t [THEN conjunct1])
  have hyp: "rkvdec2_allocate_rcb ram_only_dev ram_plenty session_1080p_decoded = (0, ctx1, evs1)
       \<and> ops_start failing_start_ops = Some (\<lambda>ctx. (- 5, ctx))
       \<and> (\<lambda>ctx. (- 5, ctx)) ctx1 = (- 5, ctx1) \<and> (- 5 :: int) \<noteq> 0"
    using al st by simp
  note out = t [THEN conjunct2, THEN conjunct2, THEN spec, THEN spec, THEN spec, THEN spec,
      THEN spec, THEN mp, OF hyp]
  have res: "rkvdec2_start_streaming failing_start_ops ram_only_dev ram_plenty
        V4L2_BUF_TYPE_VIDEO_OUTPUT_MPLANE session_1080p_decoded
          = (- 5, ctx1, evs1 @ snd (rkvdec2_free_rcb ram_only_dev ctx1))"
    by (rule out [THEN conjunct1])
  have "\<forall>M. held_after M (evs1 @ snd (rkvdec2_free_rcb ram_only_dev ctx1)) \<subseteq># M"
    using out [THEN conjunct2] by simp
  then have "held_after {#} (evs1 @ snd (rkvdec2_free_rcb ram_only_dev ctx1)) \<subseteq># {#}" by blast
  then have held: "held_after {#} (evs1 @ snd (rkvdec2_free_rcb ram_only_dev ctx1)) = {#}" by simp
  show ?thesis using d cap res held by simp
qed

section \<open>Setting the output format: rejection\<close>

text \<open>
  C4. \<open>rkvdec2_s_output_fmt\<close> fails with \<open>-EBUSY\<close> and leaves the session (so its
  \<open>coded_fmt\<close> and coded descriptor), the queue and the caller's format as they were
  whenever the output queue is streaming (whatever the request would change), or the
  output queue has buffers and the requested pixel format is not the current one, or the
  capture queue has buffers allocated.
\<close>

theorem s_output_fmt_rejects:
  fixes ops :: rkvdec2_coded_fmt_ops
  assumes "vb2_is_streaming vq
           \<or> (vb2_is_busy vq
               \<and> pm_pixelformat (fmt_pix_mp f) \<noteq> pm_pixelformat (fmt_pix_mp (coded_fmt ctx)))
           \<or> vb2_is_busy peer_vq"
  shows "rkvdec2_s_output_fmt ops constrain layout ctx vq peer_vq f = (- EBUSY, ctx, vq, f)
       \<and> fst (rkvdec2_s_output_fmt ops constrain layout ctx vq peer_vq f) \<noteq> 0
       \<and> coded_fmt (fst (snd (rkvdec2_s_output_fmt ops constrain layout ctx vq peer_vq f)))
           = coded_fmt ctx
       \<and> coded_fmt_desc (fst (snd (rkvdec2_s_output_fmt ops constrain layout ctx vq peer_vq f)))
           = coded_fmt_desc ctx"
proof -
  have "rkvdec2_s_output_fmt ops constrain layout ctx vq peer_vq f = (- EBUSY, ctx, vq, f)"
    using assms by (auto simp: rkvdec2_s_output_fmt_def)
  then show ?thesis by (simp add: EBUSY_def)
qed

theorem s_output_fmt_rejects_witness:
  "vb2_is_busy busy_queue
   \<and> pm_pixelformat (fmt_pix_mp (rkvdec2_reset_fmt V4L2_PIX_FMT_NV12))
       \<noteq> pm_pixelformat (fmt_pix_mp (coded_fmt session_1080p))
   \<and> rkvdec2_s_output_fmt failing_start_ops no_constraints nv12_layout session_1080p
        busy_queue idle_queue (rkvdec2_reset_fmt V4L2_PIX_FMT_NV12)
       = (- EBUSY, session_1080p, busy_queue, rkvdec2_reset_fmt V4L2_PIX_FMT_NV12)"
proof -
  have b: "vb2_is_busy busy_queue" by (simp add: vb2_is_busy_def busy_queue_def)
  have p: "pm_pixelformat (fmt_pix_mp (rkvdec2_reset_fmt V4L2_PIX_FMT_NV12))
             \<noteq> pm_pixelformat (fmt_pix_mp (coded_fmt session_1080p))"
    by (simp add: rkvdec2_reset_fmt_def session_1080p_def zero_ctx_def zero_format_def
        V4L2_PIX_FMT_NV12_def V4L2_PIX_FMT_H264_SLICE_def)
  have hyp: "vb2_is_streaming busy_queue
           \<or> (vb2_is_busy busy_queue
               \<and> pm_pixelformat (fmt_pix_mp (rkvdec2_reset_fmt V4L2_PIX_FMT_NV12))
                   \<noteq> pm_pixelformat (fmt_pix_mp (coded_fmt session_1080p)))
           \<or> vb2_is_busy idle_queue"
    using b p by simp
  show ?thesis
    using b p s_output_fmt_rejects [OF hyp, of failing_start_ops no_constraints nv12_layout]
    by simp
qed

section \<open>Scratch buffers: stale records in the rollback\<close>

lemma allocate_rcb_loop_untouched:
  assumes "allocate_rcb_loop dev env w h i bufs = (ret, bufs', evs)"
      and "fst (rcb_alloc_one dev env w h N) = None" "i \<le> N" "N \<le> j"
  shows "bufs' j = bufs j"
  using assms
proof (induction dev env w h i bufs arbitrary: ret bufs' evs rule: allocate_rcb_loop.induct)
  case (1 dev env w h i bufs)
  show ?case
  proof (cases "i < RKVDEC2_RCB_COUNT")
    case False
    then have "allocate_rcb_loop dev env w h i bufs = (0, bufs, [])"
      by (subst allocate_rcb_loop.simps) simp
    then show ?thesis using "1.prems"(1) by simp
  next
    case lt: True
    obtain r es where one: "rcb_alloc_one dev env w h i = (r, es)"
      by (cases "rcb_alloc_one dev env w h i")
    show ?thesis
    proof (cases r)
      case None
      then have "allocate_rcb_loop dev env w h i bufs = (- ENOMEM, bufs, es)"
        using lt one by (subst allocate_rcb_loop.simps) simp
      then show ?thesis using "1.prems"(1) by simp
    next
      case (Some b)
      then have "i \<noteq> N" using one "1.prems"(2) by auto
      then have le: "Suc i \<le> N" using "1.prems"(3) by simp
      obtain ret2 bufs2 evs2 where
        rec: "allocate_rcb_loop dev env w h (Suc i) (bufs(i := b)) = (ret2, bufs2, evs2)"
        by (cases "allocate_rcb_loop dev env w h (Suc i) (bufs(i := b))")
      have "allocate_rcb_loop dev env w h i bufs = (ret2, bufs2, es @ evs2)"
        using lt one Some rec by (subst allocate_rcb_loop.simps) simp
      then have eq: "bufs' = bufs2" using "1.prems"(1) by simp
      have "bufs2 j = (bufs(i := b)) j"
        by (rule "1.IH" [OF lt one [symmetric] Some rec "1.prems"(2) le "1.prems"(4)])
      moreover have "j \<noteq> i" using le "1.prems"(4) by simp
      ultimately show ?thesis using eq by simp
    qed
  qed
qed

lemma allocate_rcb_loop_zero_all_ok:
  assumes "allocate_rcb_loop dev env w h i bufs = (0, bufs', evs)"
      and "i \<le> j" "j < RKVDEC2_RCB_COUNT"
  shows "fst (rcb_alloc_one dev env w h j) \<noteq> None"
  using assms
proof (induction dev env w h i bufs arbitrary: bufs' evs rule: allocate_rcb_loop.induct)
  case (1 dev env w h i bufs)
  have lt: "i < RKVDEC2_RCB_COUNT" using "1.prems" by simp
  obtain r es where one: "rcb_alloc_one dev env w h i = (r, es)"
    by (cases "rcb_alloc_one dev env w h i")
  have "r \<noteq> None"
  proof
    assume "r = None"
    then have "allocate_rcb_loop dev env w h i bufs = (- ENOMEM, bufs, es)"
      using lt one by (subst allocate_rcb_loop.simps) simp
    then show False using "1.prems"(1) by (simp add: ENOMEM_def)
  qed
  then obtain b where b: "r = Some b" by blast
  show ?case
  proof (cases "j = i")
    case True
    then show ?thesis using one b by simp
  next
    case False
    then have le: "Suc i \<le> j" using "1.prems"(2) by simp
    obtain ret2 bufs2 evs2 where
      rec: "allocate_rcb_loop dev env w h (Suc i) (bufs(i := b)) = (ret2, bufs2, evs2)"
      by (cases "allocate_rcb_loop dev env w h (Suc i) (bufs(i := b))")
    have "allocate_rcb_loop dev env w h i bufs = (ret2, bufs2, es @ evs2)"
      using lt one b rec by (subst allocate_rcb_loop.simps) simp
    then have "ret2 = 0" using "1.prems"(1) by simp
    then have rec0: "allocate_rcb_loop dev env w h (Suc i) (bufs(i := b)) = (0, bufs2, evs2)"
      using rec by simp
    show ?thesis
      by (rule "1.IH" [OF lt one [symmetric] b rec0 le "1.prems"(3)])
  qed
qed

text \<open>
  The records a successful allocation has filled keep their addresses after
  \<open>rkvdec2_free_rcb\<close> (decode-queue stop). When a later allocation fails at kind \<open>N\<close>,
  its rollback releases every such record \<open>j > N\<close> again, although this call has not
  allocated it: the \<open>memset\<close> at the start of \<open>rkvdec2_allocate_rcb\<close> has cleared the
  record 0 only.
\<close>

theorem rollback_releases_stale_records:
  fixes dev :: rkvdec2_dev and env :: mem_env and ctx :: rkvdec2_ctx and N j :: nat
  assumes fail: "fst (rcb_alloc_one dev env (pm_width (fmt_pix_mp (decoded_fmt ctx)))
                       (pm_height (fmt_pix_mp (decoded_fmt ctx))) N) = None"
      and j: "N < j" "j < RKVDEC2_RCB_COUNT"
      and stale: "rcb_cpu (rcb_bufs ctx j) \<noteq> 0"
  shows "rcb_free_one dev (rcb_bufs ctx j) \<noteq> []
       \<and> set (rcb_free_one dev (rcb_bufs ctx j))
            \<subseteq> set (snd (snd (rkvdec2_allocate_rcb dev env ctx)))"
proof -
  let ?w = "pm_width (fmt_pix_mp (decoded_fmt ctx))"
  let ?h = "pm_height (fmt_pix_mp (decoded_fmt ctx))"
  let ?bufs0 = "(rcb_bufs ctx)(0 := zero_rcb_buf)"
  obtain ret bufs evs where loop: "allocate_rcb_loop dev env ?w ?h 0 ?bufs0 = (ret, bufs, evs)"
    by (cases "allocate_rcb_loop dev env ?w ?h 0 ?bufs0")
  have N: "N < RKVDEC2_RCB_COUNT" using j by simp
  have ret: "ret \<noteq> 0"
  proof
    assume "ret = 0"
    then have "allocate_rcb_loop dev env ?w ?h 0 ?bufs0 = (0, bufs, evs)" using loop by simp
    then have "fst (rcb_alloc_one dev env ?w ?h N) \<noteq> None"
      using N by (intro allocate_rcb_loop_zero_all_ok [of dev env ?w ?h 0 ?bufs0 bufs evs N]) simp_all
    then show False using fail by simp
  qed
  have "bufs j = ?bufs0 j"
    using allocate_rcb_loop_untouched [OF loop fail, of j] j by simp
  then have same: "bufs j = rcb_bufs ctx j" using j by simp
  have res: "snd (snd (rkvdec2_allocate_rcb dev env ctx)) = evs @ free_rcb_loop dev bufs 0"
    using loop ret by (simp add: rkvdec2_allocate_rcb_def rkvdec2_free_rcb_def)
  have "set (rcb_free_one dev (bufs j)) \<subseteq> set (free_rcb_loop dev bufs 0)"
    using free_rcb_loop_contains [of 0 j dev bufs] j by simp
  then have sub: "set (rcb_free_one dev (rcb_bufs ctx j))
            \<subseteq> set (snd (snd (rkvdec2_allocate_rcb dev env ctx)))"
    using same res by auto
  have "rcb_free_one dev (rcb_bufs ctx j) \<noteq> []"
    using stale by (simp add: rcb_free_one_def split: rkvdec2_alloc_type.splits)
  with sub show ?thesis by simp
qed

lemma records_stay_after_release:
  assumes "rkvdec2_allocate_rcb dev env ctx = (0, ctx1, evs1)" "j < RKVDEC2_RCB_COUNT"
  shows "rcb_cpu (rcb_bufs (fst (rkvdec2_free_rcb dev ctx1)) j) \<noteq> 0"
  using allocate_rcb_zero [OF assms(1)] assms(2) by (simp add: rkvdec2_free_rcb_def)

section \<open>Scratch buffers: what a release does\<close>

lemma free_rcb_keeps_session: "fst (rkvdec2_free_rcb dev ctx) = ctx"
  by (simp add: rkvdec2_free_rcb_def)

lemma free_rcb_loop_unfold:
  "free_rcb_loop dev bufs 0 = concat (map (\<lambda>i. rcb_free_one dev (bufs i)) [0, 1, 2, 3, 4, 5, 6, 7, 8, 9])"
  by (simp add: free_rcb_loop.simps RKVDEC2_RCB_COUNT_def eval_nat_numeral)

lemma free_rcb_loop_concat:
  "free_rcb_loop dev bufs i
     = concat (map (\<lambda>j. rcb_free_one dev (bufs j)) [i..<RKVDEC2_RCB_COUNT])"
proof (induction dev bufs i rule: free_rcb_loop.induct)
  case (1 dev bufs i)
  show ?case
  proof (cases "i < RKVDEC2_RCB_COUNT")
    case True
    then show ?thesis
      using "1.IH" by (subst free_rcb_loop.simps) (simp add: upt_conv_Cons)
  next
    case False
    then show ?thesis by (subst free_rcb_loop.simps) simp
  qed
qed

text \<open>
  C2, as the code has it. \<open>rkvdec2_free_rcb\<close> walks the 10 records: a record whose host
  address is \<open>NULL\<close> is skipped, every other record is released by the strategy recorded
  in it (\<open>iommu_unmap\<close> and \<open>gen_pool_free\<close>, or \<open>dma_free_coherent\<close>). So the function is
  safe on a partly or fully empty set, makes no call on an empty one, and the session
  holds no more after it than before. It leaves the session as it was: no host address
  is cleared, and a second call in succession makes the same calls as the first.
\<close>

theorem free_rcb_releases_allocated:
  "rkvdec2_free_rcb dev ctx
     = (ctx, concat (map (\<lambda>i. rcb_free_one dev (rcb_bufs ctx i)) [0..<RKVDEC2_RCB_COUNT]))
   \<and> (\<forall>b. rcb_cpu b = 0 \<longrightarrow> rcb_free_one dev b = [])
   \<and> (\<forall>b. rcb_cpu b \<noteq> 0 \<and> rcb_type b = RKVDEC2_ALLOC_SRAM \<longrightarrow>
          rcb_free_one dev b = [IommuUnmap (iommu_domain dev) (rcb_cpu b) (rcb_size b),
                                GenPoolFree (rcb_cpu b) (rcb_size b)])
   \<and> (\<forall>b. rcb_cpu b \<noteq> 0 \<and> rcb_type b = RKVDEC2_ALLOC_DMA \<longrightarrow>
          rcb_free_one dev b = [DmaFreeCoherent (rcb_size b) (rcb_cpu b) (rcb_dma b)])
   \<and> ((\<forall>i<RKVDEC2_RCB_COUNT. rcb_cpu (rcb_bufs ctx i) = 0) \<longrightarrow>
          snd (rkvdec2_free_rcb dev ctx) = [])
   \<and> snd (rkvdec2_free_rcb dev (fst (rkvdec2_free_rcb dev ctx))) = snd (rkvdec2_free_rcb dev ctx)
   \<and> (\<forall>M. held_after M (snd (rkvdec2_free_rcb dev ctx)) \<subseteq># M)"
proof (intro conjI allI impI)
  show "rkvdec2_free_rcb dev ctx
     = (ctx, concat (map (\<lambda>i. rcb_free_one dev (rcb_bufs ctx i)) [0..<RKVDEC2_RCB_COUNT]))"
    by (simp add: rkvdec2_free_rcb_def free_rcb_loop_concat)
next
  fix b :: rkvdec2_rcb_buf assume "rcb_cpu b = 0"
  then show "rcb_free_one dev b = []" by (simp add: rcb_free_one_def)
next
  fix b :: rkvdec2_rcb_buf assume "rcb_cpu b \<noteq> 0 \<and> rcb_type b = RKVDEC2_ALLOC_SRAM"
  then show "rcb_free_one dev b = [IommuUnmap (iommu_domain dev) (rcb_cpu b) (rcb_size b),
                                GenPoolFree (rcb_cpu b) (rcb_size b)]"
    by (simp add: rcb_free_one_def)
next
  fix b :: rkvdec2_rcb_buf assume "rcb_cpu b \<noteq> 0 \<and> rcb_type b = RKVDEC2_ALLOC_DMA"
  then show "rcb_free_one dev b = [DmaFreeCoherent (rcb_size b) (rcb_cpu b) (rcb_dma b)]"
    by (simp add: rcb_free_one_def)
next
  assume "\<forall>i<RKVDEC2_RCB_COUNT. rcb_cpu (rcb_bufs ctx i) = 0"
  then show "snd (rkvdec2_free_rcb dev ctx) = []"
    by (simp add: rkvdec2_free_rcb_def free_rcb_loop_concat rcb_free_one_def)
next
  show "snd (rkvdec2_free_rcb dev (fst (rkvdec2_free_rcb dev ctx))) = snd (rkvdec2_free_rcb dev ctx)"
    by (simp add: rkvdec2_free_rcb_def)
next
  fix M
  show "held_after M (snd (rkvdec2_free_rcb dev ctx)) \<subseteq># M"
    by (simp add: rkvdec2_free_rcb_def free_rcb_loop_held)
qed

theorem free_rcb_releases_allocated_witness:
  "rkvdec2_free_rcb ram_only_dev one_buffer_session
     = (one_buffer_session, [DmaFreeCoherent 11520 0xffff000012340000 0x12340000])
   \<and> rkvdec2_free_rcb ram_only_dev zero_ctx = (zero_ctx, [])
   \<and> held_after {#DmaBuffer 0xffff000012340000#}
         (snd (rkvdec2_free_rcb ram_only_dev one_buffer_session)) = {#}"
proof -
  have up: "[0..<RKVDEC2_RCB_COUNT] = [0, 1, 2, 3, 4, 5, 6, 7, 8, 9]"
    by (simp add: RKVDEC2_RCB_COUNT_def upt_rec)
  have a: "rkvdec2_free_rcb ram_only_dev one_buffer_session
     = (one_buffer_session, [DmaFreeCoherent 11520 0xffff000012340000 0x12340000])"
    using free_rcb_releases_allocated [of ram_only_dev one_buffer_session, THEN conjunct1]
    by (simp add: up one_buffer_session_def zero_ctx_def rcb_free_one_def zero_rcb_buf_def)
  have b: "rkvdec2_free_rcb ram_only_dev zero_ctx = (zero_ctx, [])"
    using free_rcb_releases_allocated [of ram_only_dev zero_ctx, THEN conjunct1]
    by (simp add: up zero_ctx_def rcb_free_one_def zero_rcb_buf_def)
  have c: "held_after {#DmaBuffer 0xffff000012340000#}
         (snd (rkvdec2_free_rcb ram_only_dev one_buffer_session)) = {#}"
    using a by (simp add: held_after_def)
  show ?thesis using a b c by simp
qed

text \<open>
  The release is not idempotent. For a session whose record 0 holds a coherent DMA
  buffer, the record still has its host address after \<open>rkvdec2_free_rcb\<close>, and a second
  call is not a no-op: it releases the same buffer again.
\<close>

theorem free_rcb_not_idempotent:
  "rcb_cpu (rcb_bufs (fst (rkvdec2_free_rcb ram_only_dev one_buffer_session)) 0) \<noteq> 0
   \<and> snd (rkvdec2_free_rcb ram_only_dev (fst (rkvdec2_free_rcb ram_only_dev one_buffer_session)))
       = [DmaFreeCoherent 11520 0xffff000012340000 0x12340000]
   \<and> snd (rkvdec2_free_rcb ram_only_dev (fst (rkvdec2_free_rcb ram_only_dev one_buffer_session)))
       \<noteq> []"
  by (simp add: rkvdec2_free_rcb_def free_rcb_loop_unfold one_buffer_session_def zero_ctx_def
      rcb_free_one_def zero_rcb_buf_def)

section \<open>Resetting the decoded format: plane size\<close>

lemma unat_DIV_ROUND_UP_16: "unat (DIV_ROUND_UP w 16) = ((unat w + 15) mod 2 ^ 32) div 16"
proof -
  have "w + 16 - 1 = w + 15" by simp
  then have "unat (w + 16 - 1) = (unat w + 15) mod 2 ^ 32"
    by (simp only: unat_word_ariths(1)) simp
  then have "unat ((w + 16 - 1) div 16) = ((unat w + 15) mod 2 ^ 32) div 16"
    by (simp only: unat_div) simp
  then show ?thesis by (simp only: DIV_ROUND_UP_def)
qed

lemma blocks_mod:
  fixes n :: nat
  shows "(128 * ((n mod 2 ^ 32) div 16)) mod 2 ^ 32 = (128 * (n div 16)) mod 2 ^ 32"
proof -
  have "n div 4294967296 = (n div 16) div 268435456" by (simp add: div_mult2_eq [symmetric])
  moreover have "(n mod 4294967296) div 16 = (n div 16) mod 268435456"
    using mod_mult2_eq [of n 16 268435456] by simp
  ultimately have "n div 16 = 268435456 * (n div 4294967296) + (n mod 4294967296) div 16"
    by simp
  then have "128 * (n div 16) = 4294967296 * (8 * (n div 4294967296)) + 128 * ((n mod 4294967296) div 16)"
    by simp
  then have "(128 * (n div 16)) mod 4294967296 = (128 * ((n mod 4294967296) div 16)) mod 4294967296"
    by (simp only: mod_mult_self4)
  then show ?thesis by simp
qed

lemma aux_area_mod:
  fixes w h :: u32
  shows "unat (128 * DIV_ROUND_UP w 16 * DIV_ROUND_UP h 16)
           = (128 * ((unat w + 15) div 16) * ((unat h + 15) div 16)) mod 2 ^ 32"
proof -
  define a' where "a' = ((unat w + 15) mod 2 ^ 32) div 16"
  define b' where "b' = ((unat h + 15) mod 2 ^ 32) div 16"
  define a where "a = (unat w + 15) div 16"
  define b where "b = (unat h + 15) div 16"
  define m :: nat where "m = 2 ^ 32"
  have A: "unat (DIV_ROUND_UP w 16) = a'" and B: "unat (DIV_ROUND_UP h 16) = b'"
    by (simp_all only: unat_DIV_ROUND_UP_16 a'_def b'_def)
  have ea: "(128 * a') mod m = (128 * a) mod m" and eb: "(128 * b') mod m = (128 * b) mod m"
    unfolding a'_def a_def b'_def b_def m_def by (rule blocks_mod)+
  have "unat (128 * DIV_ROUND_UP w 16) = (128 * a') mod m"
    using A by (simp add: unat_word_ariths m_def)
  then have "unat (128 * DIV_ROUND_UP w 16 * DIV_ROUND_UP h 16) = ((128 * a') mod m * b') mod m"
    using B by (simp only: unat_word_ariths(2) [of "128 * DIV_ROUND_UP w 16"] m_def) simp
  also have "\<dots> = ((128 * a) mod m * b') mod m" by (simp only: ea)
  also have "\<dots> = (128 * a * b') mod m" by (rule mod_mult_left_eq)
  also have "\<dots> = (a * (128 * b')) mod m" by (simp only: ac_simps)
  also have "\<dots> = (a * ((128 * b') mod m)) mod m" by (rule mod_mult_right_eq [symmetric])
  also have "\<dots> = (a * ((128 * b) mod m)) mod m" by (simp only: eb)
  also have "\<dots> = (a * (128 * b)) mod m" by (rule mod_mult_right_eq)
  also have "\<dots> = (128 * a * b) mod m" by (simp only: ac_simps)
  finally show ?thesis by (simp only: a_def b_def m_def)
qed

text \<open>
  C5, as the code has it. For every session, after \<open>rkvdec2_reset_decoded_fmt\<close> the decoded
  format's pixel format is the result of \<open>rkvdec2_enum_decoded_fmt\<close> at index 0 under the
  session's image kind, and its width and height are those of the coded format. The
  size of plane 0 is a \<open>u32\<close>: it is the size of the base plane layout (what
  \<open>v4l2_fill_pixfmt_mp\<close> computes) plus 128 bytes for every 16x16 block, both dimensions
  rounded up, modulo \<open>2 ^ 32\<close>; it is that sum itself whenever the sum fits in 32 bits.
\<close>

theorem reset_decoded_fmt_result:
  fixes layout :: plane_layout and ctx :: rkvdec2_ctx
  defines "w \<equiv> pm_width (fmt_pix_mp (coded_fmt ctx))"
      and "h \<equiv> pm_height (fmt_pix_mp (coded_fmt ctx))"
      and "f \<equiv> fmt_pix_mp (decoded_fmt (rkvdec2_reset_decoded_fmt layout ctx))"
  defines "base \<equiv> base_sizeimage layout (rkvdec2_enum_decoded_fmt ctx 0 (image_fmt ctx)) w h"
  shows "pm_pixelformat f = rkvdec2_enum_decoded_fmt ctx 0 (image_fmt ctx)
       \<and> pm_width f = w \<and> pm_height f = h
       \<and> unat (sizeimage (pm_plane_fmt f 0))
           = (unat base + 128 * ((unat w + 15) div 16) * ((unat h + 15) div 16)) mod 2 ^ 32
       \<and> (unat base + 128 * ((unat w + 15) div 16) * ((unat h + 15) div 16) < 2 ^ 32 \<longrightarrow>
            unat (sizeimage (pm_plane_fmt f 0))
              = unat base + 128 * ((unat w + 15) div 16) * ((unat h + 15) div 16))"
proof -
  define aux where "aux = 128 * ((unat w + 15) div 16) * ((unat h + 15) div 16)"
  have "sizeimage (pm_plane_fmt f 0) = base + 128 * DIV_ROUND_UP w 16 * DIV_ROUND_UP h 16"
    unfolding f_def base_def w_def h_def by (rule reset_decoded_fmt_sizeimage)
  then have "unat (sizeimage (pm_plane_fmt f 0)) = (unat base + aux mod 2 ^ 32) mod 2 ^ 32"
    by (simp only: unat_word_ariths(1) aux_area_mod aux_def) simp
  also have "\<dots> = (unat base + aux) mod 2 ^ 32" by (rule mod_add_right_eq)
  finally have m: "unat (sizeimage (pm_plane_fmt f 0)) = (unat base + aux) mod 2 ^ 32" .
  have e: "unat base + aux < 2 ^ 32 \<longrightarrow> unat (sizeimage (pm_plane_fmt f 0)) = unat base + aux"
    using m by simp
  have flds: "pm_pixelformat f = rkvdec2_enum_decoded_fmt ctx 0 (image_fmt ctx)"
    "pm_width f = w" "pm_height f = h"
    unfolding f_def w_def h_def by (rule reset_decoded_fmt_fields)+
  show ?thesis
    using flds m e unfolding aux_def by blast
qed

theorem reset_decoded_fmt_result_witness:
  "pm_pixelformat (fmt_pix_mp (decoded_fmt (rkvdec2_reset_decoded_fmt nv12_layout session_1080p)))
     = V4L2_PIX_FMT_NV12
   \<and> pm_width (fmt_pix_mp (decoded_fmt (rkvdec2_reset_decoded_fmt nv12_layout session_1080p))) = 1920
   \<and> pm_height (fmt_pix_mp (decoded_fmt (rkvdec2_reset_decoded_fmt nv12_layout session_1080p))) = 1088
   \<and> unat (base_sizeimage nv12_layout V4L2_PIX_FMT_NV12 1920 1088) = 3133440
   \<and> unat (sizeimage (pm_plane_fmt (fmt_pix_mp (decoded_fmt
            (rkvdec2_reset_decoded_fmt nv12_layout session_1080p))) 0)) = 3133440 + 1044480"
proof -
  have base: "base_sizeimage nv12_layout V4L2_PIX_FMT_NV12 1920 1088 = 3133440"
    by (simp add: base_sizeimage_def nv12_layout_def)
  note t = reset_decoded_fmt_result [of nv12_layout session_1080p]
  have fits: "unat (base_sizeimage nv12_layout
                 (rkvdec2_enum_decoded_fmt session_1080p 0 (image_fmt session_1080p))
                 (pm_width (fmt_pix_mp (coded_fmt session_1080p)))
                 (pm_height (fmt_pix_mp (coded_fmt session_1080p))))
             + 128 * ((unat (pm_width (fmt_pix_mp (coded_fmt session_1080p))) + 15) div 16)
                   * ((unat (pm_height (fmt_pix_mp (coded_fmt session_1080p))) + 15) div 16)
             < 2 ^ 32"
    by (simp add: session_1080p_enum session_1080p_geometry base)
  have sz: "unat (sizeimage (pm_plane_fmt (fmt_pix_mp (decoded_fmt
            (rkvdec2_reset_decoded_fmt nv12_layout session_1080p))) 0)) = 3133440 + 1044480"
    using t [THEN conjunct2, THEN conjunct2, THEN conjunct2, THEN conjunct2, THEN mp, OF fits]
    by (simp add: session_1080p_enum session_1080p_geometry base)
  have flds: "pm_pixelformat (fmt_pix_mp (decoded_fmt (rkvdec2_reset_decoded_fmt nv12_layout session_1080p)))
     = V4L2_PIX_FMT_NV12"
    "pm_width (fmt_pix_mp (decoded_fmt (rkvdec2_reset_decoded_fmt nv12_layout session_1080p))) = 1920"
    "pm_height (fmt_pix_mp (decoded_fmt (rkvdec2_reset_decoded_fmt nv12_layout session_1080p))) = 1088"
    using t [THEN conjunct1] t [THEN conjunct2, THEN conjunct1]
      t [THEN conjunct2, THEN conjunct2, THEN conjunct1]
    by (simp_all add: session_1080p_enum session_1080p_geometry)
  show ?thesis using flds sz base by simp
qed

lemma session_48000_enum:
  "rkvdec2_enum_decoded_fmt session_48000 0 (image_fmt session_48000) = V4L2_PIX_FMT_NV12"
  by (simp add: rkvdec2_enum_decoded_fmt_def session_48000_def zero_ctx_def h264_desc_def
      rkvdec2_coded_fmts_def rkvdec2_h264_decoded_fmts_def rkvdec2_image_fmt_match_def)

lemma session_48000_geometry:
  "pm_width (fmt_pix_mp (coded_fmt session_48000)) = 48000"
  "pm_height (fmt_pix_mp (coded_fmt session_48000)) = 48000"
  by (simp_all add: session_48000_def zero_ctx_def)

text \<open>
  The sum does not always fit. A coded format of 48000x48000, inside the frame-size
  envelope, with the NV12 layout has a base plane of 3456000000 bytes and 1152000000
  bytes of blocks; the sum is 4608000000, and the size stored for plane 0 is 313032704.
\<close>

theorem reset_decoded_fmt_wraps:
  "unat (pm_width (fmt_pix_mp (coded_fmt session_48000))) \<le> 65520
   \<and> unat (pm_height (fmt_pix_mp (coded_fmt session_48000))) \<le> 65520
   \<and> unat (base_sizeimage nv12_layout V4L2_PIX_FMT_NV12 48000 48000)
         + 128 * ((48000 + 15) div 16) * ((48000 + 15) div 16) = 4608000000
   \<and> unat (sizeimage (pm_plane_fmt (fmt_pix_mp (decoded_fmt
            (rkvdec2_reset_decoded_fmt nv12_layout session_48000))) 0)) = 313032704
   \<and> unat (sizeimage (pm_plane_fmt (fmt_pix_mp (decoded_fmt
            (rkvdec2_reset_decoded_fmt nv12_layout session_48000))) 0))
       \<noteq> unat (base_sizeimage nv12_layout
                 (rkvdec2_enum_decoded_fmt session_48000 0 (image_fmt session_48000))
                 (pm_width (fmt_pix_mp (coded_fmt session_48000)))
                 (pm_height (fmt_pix_mp (coded_fmt session_48000))))
           + 128 * ((unat (pm_width (fmt_pix_mp (coded_fmt session_48000))) + 15) div 16)
                 * ((unat (pm_height (fmt_pix_mp (coded_fmt session_48000))) + 15) div 16)"
proof -
  have base: "base_sizeimage nv12_layout V4L2_PIX_FMT_NV12 48000 48000 = 3456000000"
    by (simp add: base_sizeimage_def nv12_layout_def)
  have d: "DIV_ROUND_UP 48000 16 = 3000" by (simp add: DIV_ROUND_UP_def)
  have "sizeimage (pm_plane_fmt (fmt_pix_mp (decoded_fmt
            (rkvdec2_reset_decoded_fmt nv12_layout session_48000))) 0) = 313032704"
    by (simp add: reset_decoded_fmt_sizeimage session_48000_enum session_48000_geometry base d)
  then have sz: "unat (sizeimage (pm_plane_fmt (fmt_pix_mp (decoded_fmt
            (rkvdec2_reset_decoded_fmt nv12_layout session_48000))) 0)) = 313032704"
    by simp
  show ?thesis
    by (simp add: sz session_48000_enum session_48000_geometry base)
qed

section \<open>Scratch buffers: the sizes an allocation asks for\<close>

lemma pool_requests_append: "pool_requests (xs @ ys) = pool_requests xs @ pool_requests ys"
  by (induction xs rule: pool_requests.induct) simp_all

lemma dma_requests_append: "dma_requests (xs @ ys) = dma_requests xs @ dma_requests ys"
  by (induction xs rule: dma_requests.induct) simp_all

lemma alloc_one_pool_requests:
  assumes "sram_pool dev"
  shows "pool_requests (snd (rcb_alloc_one dev env w h i))
           = [if iommu_domain dev then ALIGN (ucast (RCB_SIZE i w h)) 0x1000
              else ucast (RCB_SIZE i w h)]"
  using assms
  by (simp add: rcb_alloc_one_def Let_def pool_requests_append split: prod.splits)

lemma alloc_one_dma_requests:
  assumes "\<not> sram_pool dev"
  shows "dma_requests (snd (rcb_alloc_one dev env w h i)) = [ucast (RCB_SIZE i w h)]"
  using assms
  by (simp add: rcb_alloc_one_def Let_def split: prod.splits)

lemma requests_concat:
  assumes "\<And>xs ys. req (xs @ ys) = req xs @ req ys" "req [] = []"
      and "\<And>j. req (f j) = [g j]"
  shows "req (concat (map f [i..<n])) = map g [i..<n]"
proof (induction n)
  case 0
  then show ?case using assms(2) by simp
next
  case (Suc n)
  then show ?case using assms(1,2,3) by (cases "i \<le> n") simp_all
qed

lemma allocate_rcb_loop_prefix:
  assumes "i \<le> k" "k < RKVDEC2_RCB_COUNT"
      and "\<forall>j. i \<le> j \<and> j < k \<longrightarrow> fst (rcb_alloc_one dev env w h j) \<noteq> None"
  shows "\<exists>rest. snd (snd (allocate_rcb_loop dev env w h i bufs))
           = concat (map (\<lambda>j. snd (rcb_alloc_one dev env w h j)) [i..<Suc k]) @ rest"
  using assms
proof (induction dev env w h i bufs rule: allocate_rcb_loop.induct)
  case (1 dev env w h i bufs)
  have lt: "i < RKVDEC2_RCB_COUNT" using "1.prems" by simp
  obtain r evs where one: "rcb_alloc_one dev env w h i = (r, evs)" by (cases "rcb_alloc_one dev env w h i")
  show ?case
  proof (cases "i = k")
    case True
    have "\<exists>rest. snd (snd (allocate_rcb_loop dev env w h i bufs)) = evs @ rest"
      using lt one by (subst allocate_rcb_loop.simps) (simp split: option.splits prod.splits)
    then show ?thesis using True one by simp
  next
    case False
    then have ik: "i < k" using "1.prems" by simp
    then obtain b where b: "r = Some b" using "1.prems"(3) one by fastforce
    have "Suc i \<le> k" using ik by simp
    moreover have "\<forall>j. Suc i \<le> j \<and> j < k \<longrightarrow> fst (rcb_alloc_one dev env w h j) \<noteq> None"
      using "1.prems"(3) by simp
    ultimately obtain rest where
      rec: "snd (snd (allocate_rcb_loop dev env w h (Suc i) (bufs(i := b))))
              = concat (map (\<lambda>j. snd (rcb_alloc_one dev env w h j)) [Suc i..<Suc k]) @ rest"
      using "1.IH" [OF lt one [symmetric] b] "1.prems"(2) by blast
    have "snd (snd (allocate_rcb_loop dev env w h i bufs))
            = evs @ snd (snd (allocate_rcb_loop dev env w h (Suc i) (bufs(i := b))))"
      using lt one b by (subst allocate_rcb_loop.simps) (simp split: prod.splits)
    moreover have "[i..<Suc k] = i # [Suc i..<Suc k]" using ik by (simp add: upt_conv_Cons)
    ultimately show ?thesis using rec one by simp
  qed
qed

lemma allocate_rcb_prefix:
  assumes "k < RKVDEC2_RCB_COUNT"
      and "\<forall>i<k. fst (rcb_alloc_one dev env (pm_width (fmt_pix_mp (decoded_fmt ctx)))
                      (pm_height (fmt_pix_mp (decoded_fmt ctx))) i) \<noteq> None"
  shows "\<exists>rest. snd (snd (rkvdec2_allocate_rcb dev env ctx))
           = concat (map (\<lambda>j. snd (rcb_alloc_one dev env (pm_width (fmt_pix_mp (decoded_fmt ctx)))
                      (pm_height (fmt_pix_mp (decoded_fmt ctx))) j)) [0..<Suc k]) @ rest"
proof -
  let ?w = "pm_width (fmt_pix_mp (decoded_fmt ctx))"
  let ?h = "pm_height (fmt_pix_mp (decoded_fmt ctx))"
  let ?bufs0 = "(rcb_bufs ctx)(0 := zero_rcb_buf)"
  have "\<forall>j. 0 \<le> j \<and> j < k \<longrightarrow> fst (rcb_alloc_one dev env ?w ?h j) \<noteq> None" using assms(2) by simp
  then obtain rest where
    l: "snd (snd (allocate_rcb_loop dev env ?w ?h 0 ?bufs0))
          = concat (map (\<lambda>j. snd (rcb_alloc_one dev env ?w ?h j)) [0..<Suc k]) @ rest"
    using allocate_rcb_loop_prefix [of 0 k dev env ?w ?h ?bufs0] assms(1) by blast
  obtain ret bufs evs where r: "allocate_rcb_loop dev env ?w ?h 0 ?bufs0 = (ret, bufs, evs)"
    by (cases "allocate_rcb_loop dev env ?w ?h 0 ?bufs0")
  have "\<exists>rest'. snd (snd (rkvdec2_allocate_rcb dev env ctx)) = evs @ rest'"
    using r by (simp add: rkvdec2_allocate_rcb_def rkvdec2_free_rcb_def)
  then show ?thesis using l r by auto
qed

text \<open>
  C3. Let \<open>w\<close> and \<open>h\<close> be the width and height of the session's decoded format, both
  within the frame-size envelope (at most 65520, which \<open>rkvdec2_try_capture_fmt\<close> and
  \<open>rkvdec2_try_output_fmt\<close> enforce on every format they accept), and let \<open>k\<close> be one of
  the 10 kinds that the loop of \<open>rkvdec2_allocate_rcb\<close> reaches, the kinds before it
  having got a buffer. The raw size of kind \<open>k\<close> is the kind's multiplier times \<open>h\<close> if
  the kind's axis is the height, else times \<open>w\<close>. With an on-chip pool and address
  translation, the size in the call's request number \<open>k\<close> to the pool is the raw size
  rounded up to the next multiple of 4096; with a pool and no translation it is the raw
  size; and without a pool the size in the call's request number \<open>k\<close> for coherent
  memory is the raw size.
\<close>

theorem rcb_size_formula:
  fixes dev :: rkvdec2_dev and env :: mem_env and ctx :: rkvdec2_ctx and k :: nat
  defines "w \<equiv> pm_width (fmt_pix_mp (decoded_fmt ctx))"
      and "h \<equiv> pm_height (fmt_pix_mp (decoded_fmt ctx))"
      and "calls \<equiv> snd (snd (rkvdec2_allocate_rcb dev env ctx))"
      and "raw \<equiv> unat (multiplier (rcb_sizes ! k))
                  * (if axis (rcb_sizes ! k) = PIC_HEIGHT
                     then unat (pm_height (fmt_pix_mp (decoded_fmt ctx)))
                     else unat (pm_width (fmt_pix_mp (decoded_fmt ctx))))"
  assumes k: "k < RKVDEC2_RCB_COUNT"
      and w: "unat w \<le> 65520" and h: "unat h \<le> 65520"
      and reach: "\<forall>i<k. fst (rcb_alloc_one dev env w h i) \<noteq> None"
  shows "(sram_pool dev \<and> iommu_domain dev \<longrightarrow>
            k < length (pool_requests calls)
            \<and> unat (pool_requests calls ! k) = ((raw + 4095) div 4096) * 4096)
       \<and> (sram_pool dev \<and> \<not> iommu_domain dev \<longrightarrow>
            k < length (pool_requests calls) \<and> unat (pool_requests calls ! k) = raw)
       \<and> (\<not> sram_pool dev \<longrightarrow>
            k < length (dma_requests calls) \<and> unat (dma_requests calls ! k) = raw)"
proof -
  define f where "f = (\<lambda>j. snd (rcb_alloc_one dev env w h j))"
  obtain rest where calls: "calls = concat (map f [0..<Suc k]) @ rest"
    using allocate_rcb_prefix [of k dev env ctx] k reach
    unfolding w_def h_def calls_def f_def by blast
  have size: "unat (RCB_SIZE k w h) = raw"
    unfolding raw_def using unat_RCB_SIZE [OF k w h] by (simp add: w_def h_def)
  have r64: "unat (ucast (RCB_SIZE k w h) :: u64) = raw"
    using size by (simp only: unat_ucast_u32_u64)
  have lt: "unat (ucast (RCB_SIZE k w h) :: u64) < 2 ^ 32"
    using unsigned_less [of "RCB_SIZE k w h"] by (simp only: unat_ucast_u32_u64) simp
  have al: "unat (ALIGN (ucast (RCB_SIZE k w h)) 0x1000) = ((raw + 4095) div 4096) * 4096"
    using unat_ALIGN_4096 [OF lt] r64 by simp
  have pool: "pool_requests calls
                = map (\<lambda>j. if iommu_domain dev then ALIGN (ucast (RCB_SIZE j w h)) 0x1000
                            else ucast (RCB_SIZE j w h)) [0..<Suc k] @ pool_requests rest"
    if "sram_pool dev"
  proof -
    have "pool_requests (concat (map f [0..<Suc k]))
            = map (\<lambda>j. if iommu_domain dev then ALIGN (ucast (RCB_SIZE j w h)) 0x1000
                        else ucast (RCB_SIZE j w h)) [0..<Suc k]"
    proof (rule requests_concat)
      show "pool_requests (xs @ ys) = pool_requests xs @ pool_requests ys" for xs ys
        by (rule pool_requests_append)
      show "pool_requests [] = []" by simp
      show "pool_requests (f j) = [if iommu_domain dev then ALIGN (ucast (RCB_SIZE j w h)) 0x1000
                                   else ucast (RCB_SIZE j w h)]" for j
        unfolding f_def by (rule alloc_one_pool_requests [OF that])
    qed
    then show ?thesis unfolding calls pool_requests_append by simp
  qed
  have dma: "dma_requests calls
                = map (\<lambda>j. ucast (RCB_SIZE j w h)) [0..<Suc k] @ dma_requests rest"
    if "\<not> sram_pool dev"
  proof -
    have "dma_requests (concat (map f [0..<Suc k])) = map (\<lambda>j. ucast (RCB_SIZE j w h)) [0..<Suc k]"
    proof (rule requests_concat)
      show "dma_requests (xs @ ys) = dma_requests xs @ dma_requests ys" for xs ys
        by (rule dma_requests_append)
      show "dma_requests [] = []" by simp
      show "dma_requests (f j) = [ucast (RCB_SIZE j w h)]" for j
        unfolding f_def by (rule alloc_one_dma_requests [OF that])
    qed
    then show ?thesis unfolding calls dma_requests_append by simp
  qed
  show ?thesis
  proof (intro conjI impI)
    assume d: "sram_pool dev \<and> iommu_domain dev"
    show "k < length (pool_requests calls)" using pool d by simp
    show "unat (pool_requests calls ! k) = ((raw + 4095) div 4096) * 4096"
      using pool d al by (simp add: nth_append)
  next
    assume d: "sram_pool dev \<and> \<not> iommu_domain dev"
    show "k < length (pool_requests calls)" using pool d by simp
    show "unat (pool_requests calls ! k) = raw" using pool d r64 by (simp add: nth_append)
  next
    assume d: "\<not> sram_pool dev"
    show "k < length (dma_requests calls)" using dma d by simp
    show "unat (dma_requests calls ! k) = raw" using dma d r64 by (simp add: nth_append)
  qed
qed

theorem rcb_size_formula_witness:
  "(2::nat) < RKVDEC2_RCB_COUNT \<and> (9::nat) < RKVDEC2_RCB_COUNT
   \<and> pm_width (fmt_pix_mp (decoded_fmt session_1080p_decoded)) = 1920
   \<and> pm_height (fmt_pix_mp (decoded_fmt session_1080p_decoded)) = 1088
   \<and> unat (pool_requests (snd (snd (rkvdec2_allocate_rcb sram_iommu_dev pool_of_three
        session_1080p_decoded))) ! 0) = 12288
   \<and> unat (pool_requests (snd (snd (rkvdec2_allocate_rcb sram_iommu_dev pool_of_three
        session_1080p_decoded))) ! 2) = 4096
   \<and> unat (dma_requests (snd (snd (rkvdec2_allocate_rcb ram_only_dev ram_plenty
        session_1080p_decoded))) ! 9) = 67 * 1088"
proof -
  let ?w = "pm_width (fmt_pix_mp (decoded_fmt session_1080p_decoded))"
  let ?h = "pm_height (fmt_pix_mp (decoded_fmt session_1080p_decoded))"
  have k0: "(0::nat) < RKVDEC2_RCB_COUNT" and k2: "(2::nat) < RKVDEC2_RCB_COUNT"
    and k9: "(9::nat) < RKVDEC2_RCB_COUNT"
    by (simp_all add: RKVDEC2_RCB_COUNT_def)
  have w: "unat ?w \<le> 65520" and h: "unat ?h \<le> 65520"
    by (simp_all add: session_1080p_decoded_geometry)
  have pool: "sram_pool sram_iommu_dev \<and> iommu_domain sram_iommu_dev"
    by (simp add: sram_iommu_dev_def)
  have ram: "\<not> sram_pool ram_only_dev" by (simp add: ram_only_dev_def)
  have m: "multiplier (rcb_sizes ! 0) = 6" "axis (rcb_sizes ! 0) = PIC_WIDTH"
          "multiplier (rcb_sizes ! 2) = 1" "axis (rcb_sizes ! 2) = PIC_HEIGHT"
          "multiplier (rcb_sizes ! 9) = 67" "axis (rcb_sizes ! 9) = PIC_HEIGHT"
    by (simp_all add: rcb_sizes_def)
  have r0: "\<forall>i<0. fst (rcb_alloc_one sram_iommu_dev pool_of_three ?w ?h i) \<noteq> None" by simp
  have r2: "\<forall>i<2. fst (rcb_alloc_one sram_iommu_dev pool_of_three ?w ?h i) \<noteq> None"
    using pool_of_three_alloc(1) by simp
  have r9: "\<forall>i<9. fst (rcb_alloc_one ram_only_dev ram_plenty ?w ?h i) \<noteq> None"
    using ram_plenty_alloc by (simp add: RKVDEC2_RCB_COUNT_def)
  have a: "unat (pool_requests (snd (snd (rkvdec2_allocate_rcb sram_iommu_dev pool_of_three
              session_1080p_decoded))) ! 0) = 12288"
    using rcb_size_formula [OF k0 w h r0, THEN conjunct1] pool
    by (simp add: m session_1080p_decoded_geometry)
  have b: "unat (pool_requests (snd (snd (rkvdec2_allocate_rcb sram_iommu_dev pool_of_three
              session_1080p_decoded))) ! 2) = 4096"
    using rcb_size_formula [OF k2 w h r2, THEN conjunct1] pool
    by (simp add: m session_1080p_decoded_geometry)
  have c: "unat (dma_requests (snd (snd (rkvdec2_allocate_rcb ram_only_dev ram_plenty
              session_1080p_decoded))) ! 9) = 67 * 1088"
    using rcb_size_formula [OF k9 w h r9, THEN conjunct2, THEN conjunct2] ram
    by (simp add: m session_1080p_decoded_geometry)
  show ?thesis using k2 k9 a b c by (simp add: session_1080p_decoded_geometry)
qed

section \<open>Scratch buffers: a failed allocation\<close>












end
